theory Spec2Isabelle
  imports Complex_Main "HOL-Library.Sublist"
begin

text \<open>
  The AI feature chat of the autocoder server, as functions on an explicit world:
  \<open>server/services/feature_chat_session.py\<close> (the session with its query pipeline, the
  creation of the feature, the registry of sessions) and
  \<open>server/routers/ai_features.py\<close> (the websocket handler). An async generator is the
  list of the chunks it yields with the state it leaves; what the agent, the store and
  the file system do is given from outside, as arguments and as parts of the world.
\<close>

section \<open>Python values\<close>

text \<open>
  What \<open>json.loads\<close> returns: \<open>None\<close>, a bool, an int, a float, a str, a list or a
  dict. A dict is an association list; \<open>json.loads\<close> leaves one entry per key.
\<close>

datatype json =
    JNull
  | JBool bool
  | JInt int
  | JFloat real
  | JStr string
  | JArr "json list"
  | JObj "(string \<times> json) list"

type_synonym path = "string list"

text \<open>The exceptions the two modules meet, as values.\<close>

datatype exn =
    JSONDecodeError
  | TypeError string
  | AttributeError string string
  | KeyError string
  | RecursionError
  | ValueError string
  | OSError path
  | AgentError string
  | StoreError string

text \<open>\<open>type(v).__name__\<close>, as Python prints it in its error messages.\<close>

fun type_name :: "json \<Rightarrow> string" where
  "type_name JNull = ''NoneType''"
| "type_name (JBool b) = ''bool''"
| "type_name (JInt i) = ''int''"
| "type_name (JFloat r) = ''float''"
| "type_name (JStr s) = ''str''"
| "type_name (JArr xs) = ''list''"
| "type_name (JObj d) = ''dict''"

text \<open>The truth value Python gives a value in \<open>if v:\<close>.\<close>

fun truthy :: "json \<Rightarrow> bool" where
  "truthy JNull = False"
| "truthy (JBool b) = b"
| "truthy (JInt i) = (i \<noteq> 0)"
| "truthy (JFloat r) = (r \<noteq> 0)"
| "truthy (JStr s) = (s \<noteq> [])"
| "truthy (JArr xs) = (xs \<noteq> [])"
| "truthy (JObj d) = (d \<noteq> [])"

text \<open>\<open>isinstance(v, int)\<close>: \<open>bool\<close> is a subclass of \<open>int\<close>, \<open>float\<close> is not.\<close>

fun isinstance_int :: "json \<Rightarrow> bool" where
  "isinstance_int (JInt i) = True"
| "isinstance_int (JBool b) = True"
| "isinstance_int v = False"

text \<open>The integer an \<open>int\<close> instance stands for (\<open>True\<close> is 1, \<open>False\<close> is 0).\<close>

fun int_value :: "json \<Rightarrow> int" where
  "int_value (JInt i) = i"
| "int_value (JBool b) = (if b then 1 else 0)"
| "int_value v = 0"

text \<open>\<open>d.get(k)\<close> and \<open>d.get(k, default)\<close> on a dict.\<close>

definition dict_get :: "(string \<times> json) list \<Rightarrow> string \<Rightarrow> json" where
  "dict_get d k = (case map_of d k of None \<Rightarrow> JNull | Some v \<Rightarrow> v)"

definition dict_get_default :: "(string \<times> 'a) list \<Rightarrow> string \<Rightarrow> 'a \<Rightarrow> 'a" where
  "dict_get_default d k dflt = (case map_of d k of None \<Rightarrow> dflt | Some v \<Rightarrow> v)"

text \<open>\<open>needle in haystack\<close> on two strings: the needle occurs as a contiguous run.\<close>

fun str_contains :: "string \<Rightarrow> string \<Rightarrow> bool" where
  "str_contains needle [] = (needle = [])"
| "str_contains needle (c # cs) = (prefix needle (c # cs) \<or> str_contains needle cs)"

text \<open>
  \<open>k in v\<close> for a string \<open>k\<close>: key membership on a dict, element membership on a list,
  substring on a str, and a TypeError on every other value.
\<close>

fun py_in :: "string \<Rightarrow> json \<Rightarrow> exn + bool" where
  "py_in k (JObj d) = Inr (k \<in> set (map fst d))"
| "py_in k (JArr xs) = Inr (JStr k \<in> set xs)"
| "py_in k (JStr s) = Inr (str_contains k s)"
| "py_in k v = Inl (TypeError (type_name v))"

section \<open>The file system\<close>

text \<open>
  A file is kept as what reading it gives: \<open>NotJson t\<close> is a file with text \<open>t\<close> on
  which \<open>json.loads\<close> raises its JSONDecodeError (a decoding error of \<open>read_text\<close> is
  the same branch of the callers); \<open>JsonDoc j\<close> is a file that \<open>json.loads\<close> reads
  as \<open>j\<close>. On two kinds of text the parser raises another exception, whether the
  text is JSON or not: \<open>TooDeep t\<close> is nested beyond the interpreter's recursion
  limit, such as two thousand opening brackets, and gives RecursionError;
  \<open>TooLong t\<close> holds an integer literal of more digits than the interpreter converts
  (4300 by default) and gives a plain ValueError, which is not a JSONDecodeError. The
  same type stands for an inbound websocket frame. A path is its list of components,
  and \<open>p / name\<close> appends one.
\<close>

datatype doc = NotJson string | TooDeep string | TooLong string | JsonDoc json

datatype node = Dir | File doc

definition join :: "path \<Rightarrow> string \<Rightarrow> path" where
  "join p n = p @ [n]"

fun json_loads :: "doc \<Rightarrow> exn + json" where
  "json_loads (NotJson t) = Inl JSONDecodeError"
| "json_loads (TooDeep t) = Inl RecursionError"
| "json_loads (TooLong t) = Inl (ValueError ''Exceeds the limit for integer string conversion'')"
| "json_loads (JsonDoc j) = Inr j"

section \<open>The Project Store\<close>

text \<open>
  Modelled from the spec: the ORM class \<open>Feature\<close> and \<open>get_db_session\<close> (imported from
  \<open>routers.features\<close>) are not among the sources. Section 2 of the spec gives the entity
  its fields priority, category, name, description, steps and passes; the identifier is
  the key the store assigns at commit. A store that cannot serve a transaction is
  one with a \<open>fault\<close>: the transactional scope raises it and commits nothing.
\<close>

record feature =
  f_id :: int
  f_priority :: int
  f_category :: json
  f_name :: json
  f_description :: json
  f_steps :: json
  f_passes :: bool

record store =
  rows :: "feature list"
  fault :: "exn option"

text \<open>\<open>session.query(Feature).order_by(Feature.priority.desc()).first()\<close>\<close>

fun first_by_priority_desc :: "feature list \<Rightarrow> feature option" where
  "first_by_priority_desc [] = None"
| "first_by_priority_desc (r # rs) =
     (case first_by_priority_desc rs of
        None \<Rightarrow> Some r
      | Some m \<Rightarrow> if f_priority r < f_priority m then Some m else Some r)"

text \<open>The key of the next row: one more than the largest key in use.\<close>

definition fresh_id :: "feature list \<Rightarrow> int" where
  "fresh_id rs = foldr max (map f_id rs) 0 + 1"

text \<open>
  Modelled from the spec: the schema \<open>FeatureCreate\<close> (\<open>server/schemas.py\<close>) is not among
  the sources. Section 3 of the spec gives the Feature Definition its fields name,
  description, category, priority and steps; the constructor stores them as given. The
  priority field holds what the later test of \<open>_create_feature_in_db\<close> tells apart:
  \<open>None\<close>, a str, or an int.
\<close>

datatype priority_field = PyNone | PyStr string | PyInt int

record feature_create =
  fc_name :: json
  fc_description :: json
  fc_category :: json
  fc_priority :: priority_field
  fc_steps :: json

definition FeatureCreate ::
  "json \<Rightarrow> json \<Rightarrow> json \<Rightarrow> priority_field \<Rightarrow> json \<Rightarrow> feature_create" where
  "FeatureCreate n d c p st =
     \<lparr>fc_name = n, fc_description = d, fc_category = c, fc_priority = p, fc_steps = st\<rparr>"

section \<open>Sessions and the world around them\<close>

text \<open>
  The options a \<open>ClaudeSDKClient\<close> is built with, the calls made on clients (the log
  \<open>calls\<close> of the world), and what a session keeps. Timestamps (\<open>created_at\<close>, the
  \<open>timestamp\<close> of a history entry) are left out.
\<close>

record client_options =
  opt_model :: string
  opt_cli_path :: "string option"
  opt_system_prompt :: doc
  opt_allowed_tools :: "string list"
  opt_permission_mode :: string
  opt_max_turns :: nat
  opt_cwd :: path
  opt_settings :: path

record attachment =
  mimeType :: string
  base64Data :: string

datatype content_block = TextPart string | ImagePart string string

datatype query = TextQuery string | MultimodalQuery "content_block list"

datatype call = Enter | Exit | Query query

datatype history_entry = UserEntry string bool | AssistantEntry string

record session =
  project_name :: string
  project_dir :: path
  client :: "client_options option"
  messages :: "history_entry list"
  complete :: bool
  client_entered :: bool
  created_feature_id :: "int option"

text \<open>
  The world: the file system, with what it answers to an unlink it refuses (the
  directory is not writable, say), one
  store per project directory, the log of calls on agent clients, the session objects
  by address with the next free address, the module's dict \<open>_sessions\<close> from
  project name to the address of its session, and what the process reads from its
  environment (\<open>os.getenv\<close>, \<open>shutil.which("claude")\<close>,
  \<open>ROOT_DIR\<close>, and \<open>registry.get_project_path\<close>, whose module is not among the
  sources).
\<close>

record world =
  fs :: "path \<rightharpoonup> node"
  unlink_raises :: "path \<Rightarrow> exn option"
  db :: "path \<Rightarrow> store"
  calls :: "call list"
  heap :: "nat \<Rightarrow> session"
  next_addr :: nat
  sessions :: "(string \<times> nat) list"
  environ :: "string \<rightharpoonup> string"
  which_claude :: "string option"
  ROOT_DIR :: path
  get_project_path :: "string \<Rightarrow> path"

text \<open>
  \<open>Path.unlink()\<close>: it removes a file, and raises on a path that is absent or a
  directory, or when the file system refuses.
\<close>

definition unlink :: "path \<Rightarrow> world \<Rightarrow> exn + world" where
  "unlink p w =
     (case fs w p of
        Some (File f) \<Rightarrow>
          (case unlink_raises w p of
             None \<Rightarrow> Inr (w\<lparr>fs := (fs w)(p := None)\<rparr>)
           | Some e \<Rightarrow> Inl e)
      | _ \<Rightarrow> Inl (OSError p))"

section \<open>Feature creation\<close>

text \<open>
  \<open>FeatureChatSession._create_feature_in_db\<close>. The first use of \<open>data\<close> is
  \<open>data.get\<close>, an AttributeError on anything but a dict. The branch that asks the store
  for the largest priority is taken when the schema object's priority is \<open>None\<close> or a
  str; the object is built with the local \<open>priority\<close>, which is an int on every path.
\<close>

definition create_feature_in_db :: "session \<Rightarrow> json \<Rightarrow> world \<Rightarrow> exn + (feature \<times> world)" where
  "create_feature_in_db self data w =
     (case data of
        JObj d \<Rightarrow>
          (let priority0 = (1::int);
               p = dict_get d ''priority'';
               priority1 = (if truthy p then (if isinstance_int p then int_value p else priority0)
                            else priority0);
               steps = dict_get_default d ''steps'' (JArr [])
           in case map_of d ''name'' of
                None \<Rightarrow> Inl (KeyError ''name'')
              | Some n \<Rightarrow>
                 (case map_of d ''description'' of
                    None \<Rightarrow> Inl (KeyError ''description'')
                  | Some ds \<Rightarrow>
                     (let feature_create =
                            FeatureCreate n ds (dict_get_default d ''category'' (JStr ''General''))
                              (PyInt priority1) steps;
                          st = db w (project_dir self)
                      in case fault st of
                           Some e \<Rightarrow> Inl e
                         | None \<Rightarrow>
                            (let priority =
                                   (case fc_priority feature_create of
                                      PyInt i \<Rightarrow> i
                                    | _ \<Rightarrow>
                                       (case first_by_priority_desc (rows st) of
                                          Some max_priority \<Rightarrow> f_priority max_priority + 1
                                        | None \<Rightarrow> 1));
                                 db_feature =
                                   \<lparr>f_id = fresh_id (rows st),
                                    f_priority = priority,
                                    f_category = fc_category feature_create,
                                    f_name = fc_name feature_create,
                                    f_description = fc_description feature_create,
                                    f_steps = fc_steps feature_create,
                                    f_passes = False\<rparr>
                             in Inr (db_feature,
                                     w\<lparr>db := (db w)(project_dir self :=
                                          st\<lparr>rows := rows st @ [db_feature]\<rparr>)\<rparr>)))))
      | _ \<Rightarrow> Inl (AttributeError (type_name data) ''get''))"

section \<open>The agent's response stream\<close>

text \<open>
  What \<open>client.receive_response()\<close> yields, by the class names the code tests. The
  input of a tool invocation maps argument names to strings (the \<open>file_path\<close> of the
  Write and Edit tools is a string, on which \<open>str\<close> is the identity). The agent runs
  beside the server and touches the project directory between two messages:
  \<open>AgentWrites\<close> and \<open>AgentRemoves\<close> are those actions, placed in the stream where they
  happen; \<open>StreamRaises\<close> is the stream raising instead of yielding. A turn of the
  agent is what \<open>client.query\<close> does (it may raise) and the stream that follows.
\<close>

datatype block =
    TextBlock string
  | ToolUseBlock string "(string \<times> string) list"
  | OtherBlock string

datatype event =
    AssistantMessage "block list"
  | UserMessage
  | OtherMessage string
  | AgentWrites path doc
  | AgentRemoves path
  | StreamRaises exn

record agent_turn =
  query_raises :: "exn option"
  response :: "event list"

text \<open>
  The chunks a session yields and the handler sends as JSON frames. The content of an
  error chunk is a literal or \<open>str(e)\<close> of an exception.
\<close>

datatype error_content = Lit string | Str exn

datatype chunk =
    TextChunk string
  | FeatureCreated json
  | ErrorChunk error_content
  | ResponseDone
  | Pong

text \<open>A generator that yields \<open>cs\<close> and then goes on as \<open>r\<close>.\<close>

definition emit :: "chunk list \<Rightarrow> chunk list \<times> 'a \<Rightarrow> chunk list \<times> 'a" where
  "emit cs r = (cs @ fst r, snd r)"

section \<open>The query pipeline\<close>

text \<open>
  The inner loop of \<open>_query_claude\<close> over the blocks of an AssistantMessage: a non-empty
  text is yielded and appended to the history, a Write or Edit whose \<open>file_path\<close>
  contains \<open>.new_feature.json\<close> sets the local flag. (The local \<open>current_text\<close> is
  written and never read; it is left out.)
\<close>

fun run_blocks :: "block list \<Rightarrow> bool \<Rightarrow> session \<Rightarrow> chunk list \<times> bool \<times> session" where
  "run_blocks [] pending self = ([], pending, self)"
| "run_blocks (TextBlock t # bs) pending self =
     (if t \<noteq> [] then
        emit [TextChunk t]
          (run_blocks bs pending (self\<lparr>messages := messages self @ [AssistantEntry t]\<rparr>))
      else run_blocks bs pending self)"
| "run_blocks (ToolUseBlock name inp # bs) pending self =
     (if name = ''Write'' \<or> name = ''Edit'' then
        (let file_path = dict_get_default inp ''file_path'' [] in
         if str_contains ''.new_feature.json'' file_path then run_blocks bs True self
         else run_blocks bs pending self)
      else run_blocks bs pending self)"
| "run_blocks (OtherBlock n # bs) pending self = run_blocks bs pending self"

text \<open>
  The body of the \<open>try\<close> of \<open>_query_claude\<close>, up to the call that creates the feature:
  \<open>Inl e\<close> when it raises, \<open>Inr None\<close> when a required field is absent (the \<open>if\<close> has
  no \<open>else\<close>), and the parsed payload with the new row otherwise.
\<close>

definition try_trigger :: "node \<Rightarrow> session \<Rightarrow> world \<Rightarrow> exn + (json \<times> feature \<times> world) option" where
  "try_trigger nd self w =
     (case nd of
        Dir \<Rightarrow> Inl (OSError (join (project_dir self) ''.new_feature.json''))
      | File f \<Rightarrow>
         (case json_loads f of
            Inl e \<Rightarrow> Inl e
          | Inr content \<Rightarrow>
             (case py_in ''name'' content of
                Inl e \<Rightarrow> Inl e
              | Inr has_name \<Rightarrow>
                 if \<not> has_name then Inr None
                 else
                   (case py_in ''description'' content of
                      Inl e \<Rightarrow> Inl e
                    | Inr has_description \<Rightarrow>
                       if \<not> has_description then Inr None
                       else
                         (case create_feature_in_db self content w of
                            Inl e \<Rightarrow> Inl e
                          | Inr (created_feature, w') \<Rightarrow>
                              Inr (Some (content, created_feature, w')))))))"

text \<open>
  The loop of \<open>_query_claude\<close> over the response stream, from the local flag
  \<open>pending_feature_json_write\<close>. The result is the chunks yielded, the exception that
  left the generator (if one did), and the session and the world at the end. The
  \<open>feature_created\<close> chunk is yielded inside the \<open>try\<close>, after the two completion
  fields are set and before the trigger file is unlinked: when the unlink raises, the
  \<open>except\<close> yields its error chunk and the loop goes on with the flag cleared; when it
  does not, the generator returns. The result is that of a generator consumed to its
  end: a consumer that stops taking chunks leaves the generator suspended at the last
  \<open>yield\<close>, and what follows that \<open>yield\<close> does not run.
\<close>

fun receive_loop ::
  "event list \<Rightarrow> bool \<Rightarrow> session \<Rightarrow> world \<Rightarrow> chunk list \<times> exn option \<times> session \<times> world" where
  "receive_loop [] pending self w = ([], None, self, w)"
| "receive_loop (AssistantMessage bs # es) pending self w =
     (case run_blocks bs pending self of
        (out, pending', self') \<Rightarrow> emit out (receive_loop es pending' self' w))"
| "receive_loop (UserMessage # es) pending self w =
     (if pending then
        (let trigger_file = join (project_dir self) ''.new_feature.json'' in
         case fs w trigger_file of
           None \<Rightarrow> receive_loop es False self w
         | Some nd \<Rightarrow>
            (case try_trigger nd self w of
               Inl e \<Rightarrow>
                 emit [ErrorChunk (Lit ''Failed to create feature from definition.'')]
                   (receive_loop es False self w)
             | Inr None \<Rightarrow> receive_loop es False self w
             | Inr (Some (content, created_feature, w')) \<Rightarrow>
                 (let self' = self\<lparr>complete := True,
                                   created_feature_id := Some (f_id created_feature)\<rparr>
                  in case unlink trigger_file w' of
                       Inr w'' \<Rightarrow> ([FeatureCreated content], None, self', w'')
                     | Inl e \<Rightarrow>
                         emit [FeatureCreated content,
                               ErrorChunk (Lit ''Failed to create feature from definition.'')]
                           (receive_loop es False self' w'))))
      else receive_loop es pending self w)"
| "receive_loop (OtherMessage n # es) pending self w = receive_loop es pending self w"
| "receive_loop (AgentWrites p f # es) pending self w =
     receive_loop es pending self (w\<lparr>fs := (fs w)(p \<mapsto> File f)\<rparr>)"
| "receive_loop (AgentRemoves p # es) pending self w =
     receive_loop es pending self (w\<lparr>fs := (fs w)(p := None)\<rparr>)"
| "receive_loop (StreamRaises e # es) pending self w = ([], Some e, self, w)"

text \<open>\<open>FeatureChatSession._query_claude\<close>\<close>

definition query_claude ::
  "string \<Rightarrow> attachment list option \<Rightarrow> agent_turn \<Rightarrow> session \<Rightarrow> world
     \<Rightarrow> chunk list \<times> exn option \<times> session \<times> world" where
  "query_claude message attachments turn self w =
     (if client self = None then ([], None, self, w)
      else
        (let q = (case attachments of
                    Some (a # as) \<Rightarrow>
                      MultimodalQuery
                        ((if message \<noteq> [] then [TextPart message] else []) @
                         map (\<lambda>att. ImagePart (mimeType att) (base64Data att)) (a # as))
                  | _ \<Rightarrow> TextQuery message);
             w1 = w\<lparr>calls := calls w @ [Query q]\<rparr>
         in case query_raises turn of
              Some e \<Rightarrow> ([], Some e, self, w1)
            | None \<Rightarrow> receive_loop (response turn) False self w1))"

text \<open>
  \<open>FeatureChatSession.send_message\<close>: the \<open>except\<close> turns an exception of the
  pipeline into one more error chunk.
\<close>

definition send_message ::
  "string \<Rightarrow> attachment list option \<Rightarrow> agent_turn \<Rightarrow> session \<Rightarrow> world
     \<Rightarrow> chunk list \<times> session \<times> world" where
  "send_message user_message attachments turn self w =
     (if client self = None then ([ErrorChunk (Lit ''Session not initialized'')], self, w)
      else
        (let self1 = self\<lparr>messages := messages self @
                       [UserEntry user_message
                          (attachments \<noteq> None \<and> attachments \<noteq> Some [])]\<rparr>
         in case query_claude user_message attachments turn self1 w of
              (out, None, self2, w2) \<Rightarrow> (out @ [ResponseDone], self2, w2)
            | (out, Some e, self2, w2) \<Rightarrow> (out @ [ErrorChunk (Str e)], self2, w2)))"

section \<open>The session's life cycle\<close>

text \<open>\<open>FeatureChatSession.__init__\<close>\<close>

definition FeatureChatSession :: "string \<Rightarrow> path \<Rightarrow> session" where
  "FeatureChatSession pn pd =
     \<lparr>project_name = pn, project_dir = pd, client = None, messages = [],
      complete = False, client_entered = False, created_feature_id = None\<rparr>"

text \<open>
  \<open>FeatureChatSession.close\<close>. Whether \<open>__aexit__\<close> raises or not, the \<open>finally\<close>
  clears both fields.
\<close>

definition close :: "session \<Rightarrow> world \<Rightarrow> session \<times> world" where
  "close self w =
     (if client self \<noteq> None \<and> client_entered self then
        (self\<lparr>client_entered := False, client := None\<rparr>, w\<lparr>calls := calls w @ [Exit]\<rparr>)
      else (self, w))"

definition get_default_model :: "world \<Rightarrow> string" where
  "get_default_model w =
     (if environ w ''CLAUDE_CODE_USE_BEDROCK'' = Some ''1'' then
        (case environ w ''ANTHROPIC_MODEL'' of
           None \<Rightarrow> ''us.anthropic.claude-opus-4-5-20251101-v1:0''
         | Some m \<Rightarrow> m)
      else ''claude-opus-4-5-20251101'')"

definition security_settings :: json where
  "security_settings =
     JObj [(''sandbox'', JObj [(''enabled'', JBool False)]),
           (''permissions'',
            JObj [(''defaultMode'', JStr ''acceptEdits''),
                  (''allow'', JArr [JStr ''Read(./**)'', JStr ''Write(./**)'',
                                    JStr ''Edit(./**)'', JStr ''Glob(./**)''])])]"

text \<open>
  How the construction of the client goes is the environment's choice: the constructor
  raises, \<open>__aenter__\<close> raises (the client object is already assigned), or the client
  opens.
\<close>

datatype client_opening = ConstructorRaises exn | EnterRaises exn | Opened

text \<open>
  \<open>FeatureChatSession.start\<close>. The calls on the file system sit outside every \<open>try\<close>:
  reading the skill file raises when the path is a directory, unlinking a trigger file
  that exists may raise, and opening the settings file for writing raises when it is a
  directory or the project directory is not one; that exception leaves the generator.
\<close>

definition start ::
  "client_opening \<Rightarrow> agent_turn \<Rightarrow> session \<Rightarrow> world \<Rightarrow> chunk list \<times> exn option \<times> session \<times> world" where
  "start opn turn self w =
     (let skill_path = ROOT_DIR w @ [''.claude'', ''commands'', ''create-feature.md''] in
      case fs w skill_path of
        None \<Rightarrow> ([ErrorChunk (Lit ''Skill not found'')], None, self, w)
      | Some Dir \<Rightarrow> ([], Some (OSError skill_path), self, w)
      | Some (File skill_content) \<Rightarrow>
         (let trigger_file = join (project_dir self) ''.new_feature.json'' in
          case (if fs w trigger_file = None then Inr w else unlink trigger_file w) of
            Inl e \<Rightarrow> ([], Some e, self, w)
          | Inr w1 \<Rightarrow>
            (let settings_file = join (project_dir self) ''.claude_feature_settings.json''
             in if fs w1 settings_file = Some Dir \<or> fs w1 (project_dir self) \<noteq> Some Dir
                then ([], Some (OSError settings_file), self, w1)
                else
                  (let w2 = w1\<lparr>fs := (fs w1)(settings_file \<mapsto> File (JsonDoc security_settings))\<rparr>;
                       system_cli = which_claude w2;
                       options =
                         \<lparr>opt_model = get_default_model w2,
                          opt_cli_path = system_cli,
                          opt_system_prompt = skill_content,
                          opt_allowed_tools = [''Read'', ''Write'', ''Edit'', ''Glob''],
                          opt_permission_mode = ''acceptEdits'',
                          opt_max_turns = 50,
                          opt_cwd = project_dir self,
                          opt_settings = settings_file\<rparr>
                   in case opn of
                        ConstructorRaises e \<Rightarrow> ([ErrorChunk (Str e)], None, self, w2)
                      | EnterRaises e \<Rightarrow>
                          ([ErrorChunk (Str e)], None, self\<lparr>client := Some options\<rparr>,
                           w2\<lparr>calls := calls w2 @ [Enter]\<rparr>)
                      | Opened \<Rightarrow>
                          (case query_claude ''I want to add a new feature.'' None turn
                                  (self\<lparr>client := Some options, client_entered := True\<rparr>)
                                  (w2\<lparr>calls := calls w2 @ [Enter]\<rparr>) of
                             (out, None, self2, w3) \<Rightarrow> (out @ [ResponseDone], None, self2, w3)
                           | (out, Some e, self2, w3) \<Rightarrow>
                               (out @ [ErrorChunk (Str e)], None, self2, w3))))))"

section \<open>The Session Registry\<close>

text \<open>
  The module's dict \<open>_sessions\<close> holds addresses of session objects. \<open>d.pop(k, None)\<close>
  removes the key, \<open>d[k] = v\<close> replaces the value of a key in place or appends a new key.
\<close>

definition dict_pop :: "string \<Rightarrow> (string \<times> 'a) list \<Rightarrow> (string \<times> 'a) list" where
  "dict_pop k d = filter (\<lambda>kv. fst kv \<noteq> k) d"

fun dict_set :: "string \<Rightarrow> 'a \<Rightarrow> (string \<times> 'a) list \<Rightarrow> (string \<times> 'a) list" where
  "dict_set k v [] = [(k, v)]"
| "dict_set k v ((k', v') # d) = (if k' = k then (k, v) # d else (k', v') # dict_set k v d)"

definition get_session :: "string \<Rightarrow> world \<Rightarrow> nat option" where
  "get_session pn w = map_of (sessions w) pn"

text \<open>Calling \<open>close\<close> on the session object at an address.\<close>

definition close_at :: "nat \<Rightarrow> world \<Rightarrow> world" where
  "close_at a w = (case close (heap w a) w of (s', w') \<Rightarrow> w'\<lparr>heap := (heap w')(a := s')\<rparr>)"

text \<open>
  \<open>create_session\<close> in its two parts: the block under \<open>_sessions_lock\<close>, which gives the
  old session (if any), the new one and the world with the new one installed; and
  the close of the old session, awaited after the lock is released.
\<close>

definition create_session_locked :: "string \<Rightarrow> path \<Rightarrow> world \<Rightarrow> nat option \<times> nat \<times> world" where
  "create_session_locked pn pd w =
     (let old_session = map_of (sessions w) pn;
          popped = dict_pop pn (sessions w);
          session = next_addr w
      in (old_session, session,
          w\<lparr>heap := (heap w)(session := FeatureChatSession pn pd),
            next_addr := Suc session,
            sessions := dict_set pn session popped\<rparr>))"

definition create_session :: "string \<Rightarrow> path \<Rightarrow> world \<Rightarrow> nat \<times> world" where
  "create_session pn pd w =
     (case create_session_locked pn pd w of
        (old_session, session, w1) \<Rightarrow>
          (session, case old_session of None \<Rightarrow> w1 | Some old \<Rightarrow> close_at old w1))"

definition remove_session :: "string \<Rightarrow> world \<Rightarrow> world" where
  "remove_session pn w =
     (let session = map_of (sessions w) pn;
          w1 = w\<lparr>sessions := dict_pop pn (sessions w)\<rparr>
      in case session of None \<Rightarrow> w1 | Some a \<Rightarrow> close_at a w1)"

definition cleanup_all_sessions :: "world \<Rightarrow> world" where
  "cleanup_all_sessions w =
     (let ss = map snd (sessions w) in fold close_at ss (w\<lparr>sessions := []\<rparr>))"

section \<open>The websocket handler\<close>

text \<open>
  \<open>str.strip()\<close>. A character of a string here is a code point below 256; those that
  \<open>str.isspace\<close> accepts are the ASCII white space, U+0085 and U+00A0.
\<close>

definition is_space :: "char \<Rightarrow> bool" where
  "is_space c = (c \<in> set [CHR 0x09, CHR 0x0A, CHR 0x0B, CHR 0x0C, CHR 0x0D,
                           CHR 0x1C, CHR 0x1D, CHR 0x1E, CHR 0x1F, CHR 0x20,
                           CHR 0x85, CHR 0xA0])"

definition strip :: "string \<Rightarrow> string" where
  "strip s = rev (dropWhile is_space (rev (dropWhile is_space s)))"

text \<open>
  How the handler ends: the client disconnects (the inbound frames are exhausted), the
  outermost \<open>except\<close> sends its error frame and the function returns, or the connection
  is refused with close code 4004.
\<close>

datatype ending = Disconnected | Failed | Refused

text \<open>
  The receive loop of \<open>ai_feature_chat_websocket\<close>, over the inbound text frames. Each
  frame comes with what the environment does if the frame makes the session open a
  client or query the agent. The local variable \<open>session\<close> is an address or \<open>None\<close>.
  \<open>websocket.send_json\<close> is taken to succeed, so every chunk of a generator is sent and
  the generator runs to its end.
\<close>

fun receive_frames ::
  "string \<Rightarrow> path \<Rightarrow> (doc \<times> client_opening \<times> agent_turn) list \<Rightarrow> nat option \<Rightarrow> world
     \<Rightarrow> chunk list \<times> ending \<times> world" where
  "receive_frames pn pp [] session w = ([], Disconnected, w)"
| "receive_frames pn pp ((data, opn, turn) # rest) session w =
     (case json_loads data of
        Inl e \<Rightarrow>
          if e = JSONDecodeError then
            emit [ErrorChunk (Lit ''Invalid JSON'')] (receive_frames pn pp rest session w)
          else ([ErrorChunk (Str e)], Failed, w)
      | Inr message \<Rightarrow>
         (case message of
            JObj m \<Rightarrow>
              (let msg_type = dict_get m ''type'' in
               if msg_type = JStr ''ping'' then emit [Pong] (receive_frames pn pp rest session w)
               else if msg_type = JStr ''start'' then
                 (case create_session pn pp w of
                    (a, w1) \<Rightarrow>
                      (case start opn turn (heap w1 a) w1 of
                         (out, None, s', w2) \<Rightarrow>
                           emit out
                             (receive_frames pn pp rest (Some a) (w2\<lparr>heap := (heap w2)(a := s')\<rparr>))
                       | (out, Some e, s', w2) \<Rightarrow>
                           (out @ [ErrorChunk (Str e)], Failed, w2\<lparr>heap := (heap w2)(a := s')\<rparr>)))
               else if msg_type = JStr ''message'' then
                 (let session1 = (case session of None \<Rightarrow> get_session pn w | Some a \<Rightarrow> Some a) in
                  case session1 of
                    None \<Rightarrow>
                      emit [ErrorChunk (Lit (''No active session. Send '' @ [CHR 0x27] @ ''start''
                                             @ [CHR 0x27] @ '' first.''))]
                        (receive_frames pn pp rest None w)
                  | Some a \<Rightarrow>
                     (case dict_get_default m ''content'' (JStr []) of
                        JStr c \<Rightarrow>
                          (let user_content = strip c in
                           if user_content = [] then receive_frames pn pp rest (Some a) w
                           else
                             (case send_message user_content None turn (heap w a) w of
                                (out, s', w1) \<Rightarrow>
                                  emit out
                                    (receive_frames pn pp rest (Some a)
                                       (w1\<lparr>heap := (heap w1)(a := s')\<rparr>))))
                      | v \<Rightarrow> ([ErrorChunk (Str (AttributeError (type_name v) ''strip''))], Failed, w)))
               else receive_frames pn pp rest session w)
          | v \<Rightarrow> ([ErrorChunk (Str (AttributeError (type_name v) ''get''))], Failed, w)))"

text \<open>\<open>ai_feature_chat_websocket\<close>\<close>

definition ai_feature_chat_websocket ::
  "string \<Rightarrow> (doc \<times> client_opening \<times> agent_turn) list \<Rightarrow> world \<Rightarrow> chunk list \<times> ending \<times> world" where
  "ai_feature_chat_websocket pn frames w =
     (let project_path = get_project_path w pn in
      if fs w project_path = None then ([], Refused, w)
      else receive_frames pn project_path frames None w)"

section \<open>Properties stated on sessions\<close>

text \<open>
  Features were inserted between \<open>(s, w)\<close> and \<open>(s', w')\<close>: the store of the session's
  project gained one or more rows, each with \<open>passes = False\<close>, and the session is
  complete with the identifier of the last of them.
\<close>

definition feature_inserted :: "session \<Rightarrow> world \<Rightarrow> session \<Rightarrow> world \<Rightarrow> bool" where
  "feature_inserted s w s' w' =
     (\<exists>rs row.
        rows (db w' (project_dir s)) = rows (db w (project_dir s)) @ rs @ [row] \<and>
        (\<forall>r \<in> set (rs @ [row]). f_passes r = False) \<and>
        complete s' \<and> created_feature_id s' = Some (f_id row))"

text \<open>
  A run of the pipeline that ended at its \<open>feature_created\<close> chunk: that chunk is the
  last and the only one of its kind, no exception left the generator, exactly one row
  was appended to the store of the session's project, and the trigger file does not
  exist.
\<close>

definition clean_end :: "session \<Rightarrow> world \<Rightarrow> chunk list \<Rightarrow> exn option \<Rightarrow> world \<Rightarrow> bool" where
  "clean_end s w out exc w' =
     (exc = None \<and>
      fs w' (join (project_dir s) ''.new_feature.json'') = None \<and>
      (\<exists>pre f row.
         out = pre @ [FeatureCreated f] \<and> (\<forall>g. FeatureCreated g \<notin> set pre) \<and>
         rows (db w' (project_dir s)) = rows (db w (project_dir s)) @ [row]))"

text \<open>
  The relation between the session and the world before and after a run of the
  response loop that yielded \<open>out\<close>: the loop leaves the project, the client and the
  entered flag alone; and either it leaves the completion fields and the store alone
  and yields no \<open>feature_created\<close> chunk, or it yields such a chunk and features were
  inserted, and, when the file system does not refuse the unlink of the trigger file,
  the run ended at that chunk.
\<close>

definition turn_outcome :: "session \<Rightarrow> world \<Rightarrow> chunk list \<Rightarrow> exn option \<Rightarrow> session \<Rightarrow> world \<Rightarrow> bool" where
  "turn_outcome s w out exc s' w' =
     (project_dir s' = project_dir s \<and> project_name s' = project_name s \<and>
      client s' = client s \<and> client_entered s' = client_entered s \<and>
      unlink_raises w' = unlink_raises w \<and>
      ((complete s' = complete s \<and> created_feature_id s' = created_feature_id s \<and>
        db w' = db w \<and> (\<forall>f. FeatureCreated f \<notin> set out))
       \<or> (feature_inserted s w s' w' \<and> (\<exists>f. FeatureCreated f \<in> set out) \<and>
            (unlink_raises w (join (project_dir s) ''.new_feature.json'') = None
               \<longrightarrow> clean_end s w out exc w'))))"

text \<open>
  The two completion fields agree: \<open>complete\<close> is set exactly when
  \<open>created_feature_id\<close> is.
\<close>

definition completion_consistent :: "session \<Rightarrow> bool" where
  "completion_consistent s = (complete s = (created_feature_id s \<noteq> None))"

text \<open>
  From \<open>s\<close> to \<open>s'\<close> agreement is kept and neither field is reset.
\<close>

definition keeps_completion :: "session \<Rightarrow> session \<Rightarrow> bool" where
  "keeps_completion s s' =
     ((completion_consistent s \<longrightarrow> completion_consistent s') \<and>
      (complete s \<longrightarrow> complete s') \<and>
      (created_feature_id s \<noteq> None \<longrightarrow> created_feature_id s' \<noteq> None))"

text \<open>
  What an operation that yielded \<open>out\<close> does to the two fields: nothing, or it sets both
  and \<open>out\<close> holds a \<open>feature_created\<close> chunk.
\<close>

definition fields_step :: "session \<Rightarrow> chunk list \<Rightarrow> session \<Rightarrow> bool" where
  "fields_step s out s' =
     ((complete s' = complete s \<and> created_feature_id s' = created_feature_id s) \<or>
      (complete s' \<and> created_feature_id s' \<noteq> None \<and> (\<exists>f. FeatureCreated f \<in> set out)))"

text \<open>
  A turn that created the feature \<open>f\<close> and ended there: its chunks end with the
  \<open>feature_created\<close> chunk, the only one of the turn, followed by the \<open>response_done\<close>
  marker alone; one row with \<open>passes = False\<close> was appended to the store of the session's
  project; the session is complete with that row's identifier; the trigger file does not
  exist.
\<close>

definition created_turn :: "session \<Rightarrow> world \<Rightarrow> json \<Rightarrow> chunk list \<Rightarrow> session \<Rightarrow> world \<Rightarrow> bool" where
  "created_turn s w f out s' w' =
     (\<exists>pre row.
        out = pre @ [FeatureCreated f, ResponseDone] \<and>
        (\<forall>g. FeatureCreated g \<notin> set pre) \<and>
        rows (db w' (project_dir s)) = rows (db w (project_dir s)) @ [row] \<and>
        f_passes row = False \<and>
        complete s' \<and> created_feature_id s' = Some (f_id row) \<and>
        fs w' (join (project_dir s) ''.new_feature.json'') = None)"

section \<open>Properties stated on the registry\<close>

text \<open>
  A session is open while it holds a client that was entered. The registry is well
  formed when no project name has two entries in \<open>_sessions\<close> and every address in
  it has been allocated.
\<close>

definition is_open :: "session \<Rightarrow> bool" where
  "is_open s = (client s \<noteq> None \<and> client_entered s)"

definition registry_ok :: "world \<Rightarrow> bool" where
  "registry_ok w =
     (distinct (map fst (sessions w)) \<and> (\<forall>a \<in> set (map snd (sessions w)). a < next_addr w))"

section \<open>A small world to run the definitions on\<close>

text \<open>
  A project \<open>demo\<close> whose store holds one feature of priority 3, a session for it with
  an open client, and the world in which the project's trigger file holds a given
  document.
\<close>

definition demo_dir :: path where
  "demo_dir = [''projects'', ''demo'']"

definition demo_trigger :: path where
  "demo_trigger = join demo_dir ''.new_feature.json''"

definition demo_row :: feature where
  "demo_row =
     \<lparr>f_id = 1, f_priority = 3, f_category = JStr ''UI'', f_name = JStr ''Login'',
      f_description = JStr ''Sign in'', f_steps = JArr [], f_passes = True\<rparr>"

definition demo_options :: client_options where
  "demo_options =
     \<lparr>opt_model = ''claude-opus-4-5-20251101'', opt_cli_path = None,
      opt_system_prompt = NotJson ''skill'',
      opt_allowed_tools = [''Read'', ''Write'', ''Edit'', ''Glob''],
      opt_permission_mode = ''acceptEdits'', opt_max_turns = 50, opt_cwd = demo_dir,
      opt_settings = join demo_dir ''.claude_feature_settings.json''\<rparr>"

definition demo_session :: session where
  "demo_session =
     (FeatureChatSession ''demo'' demo_dir)\<lparr>client := Some demo_options, client_entered := True\<rparr>"

definition demo_world :: "doc \<Rightarrow> world" where
  "demo_world f =
     \<lparr>fs = [demo_dir \<mapsto> Dir, demo_trigger \<mapsto> File f,
            [''app'', ''.claude'', ''commands'', ''create-feature.md''] \<mapsto> File (NotJson ''skill'')],
      unlink_raises = (\<lambda>p. None),
      db = (\<lambda>d. \<lparr>rows = [demo_row], fault = None\<rparr>),
      calls = [],
      heap = (\<lambda>a. demo_session),
      next_addr = 1,
      sessions = [(''demo'', 0)],
      environ = Map.empty,
      which_claude = None,
      ROOT_DIR = [''app''],
      get_project_path = (\<lambda>n. [''projects'', n])\<rparr>"

definition payload_xy :: json where
  "payload_xy = JObj [(''name'', JStr ''X''), (''description'', JStr ''Y'')]"

text \<open>
  A turn of the agent: it says something, writes to a path outside the project whose name
  contains \<open>.new_feature.json\<close>, the tool result comes back, and it says more. Two
  further payloads, with an integer and with a fractional priority.
\<close>

definition demo_turn :: agent_turn where
  "demo_turn =
     \<lparr>query_raises = None,
      response =
        [AssistantMessage
           [TextBlock ''Done.'',
            ToolUseBlock ''Write'' [(''file_path'', ''/elsewhere/x.new_feature.json.bak'')]],
         UserMessage,
         AssistantMessage [TextBlock ''More.'']]\<rparr>"

definition payload_p5 :: json where
  "payload_p5 = JObj [(''name'', JStr ''X''), (''description'', JStr ''Y''), (''priority'', JInt 5)]"

definition payload_float :: json where
  "payload_float =
     JObj [(''name'', JStr ''X''), (''description'', JStr ''Y''), (''priority'', JFloat (5 / 2))]"

text \<open>
  A payload without a name, a world whose store raises on every transaction, and an
  agent that rewrites the trigger file and announces it: as the rest of a stream, and as
  a whole turn.
\<close>

definition payload_no_name :: json where
  "payload_no_name = JObj [(''description'', JStr ''Y'')]"

definition faulty_world :: world where
  "faulty_world =
     (demo_world (JsonDoc payload_xy))
       \<lparr>db := (\<lambda>d. \<lparr>rows = [demo_row], fault = Some (StoreError ''database is locked'')\<rparr>)\<rparr>"

definition retry_events :: "event list" where
  "retry_events =
     [AgentWrites demo_trigger (JsonDoc payload_xy),
      AssistantMessage [ToolUseBlock ''Edit'' [(''file_path'', ''.new_feature.json'')]],
      UserMessage]"

definition retry_turn :: agent_turn where
  "retry_turn = \<lparr>query_raises = None, response = retry_events\<rparr>"

text \<open>
  The demo world on a file system that refuses every unlink.
\<close>

definition readonly_world :: world where
  "readonly_world =
     (demo_world (JsonDoc payload_xy))\<lparr>unlink_raises := (\<lambda>p. Some (OSError p))\<rparr>"

section \<open>Lemmas on the definitions\<close>

lemma str_contains_sublist: "str_contains needle hay = sublist needle hay"
  by (induction hay) (auto simp: sublist_Cons_right)

lemma create_feature_in_db_dict:
  assumes "map_of d ''name'' = Some n" and "map_of d ''description'' = Some ds"
    and "fault (db w (project_dir self)) = None"
  shows "create_feature_in_db self (JObj d) w =
     (let st = db w (project_dir self);
          p = dict_get d ''priority'';
          row = \<lparr>f_id = fresh_id (rows st),
                 f_priority = (if truthy p \<and> isinstance_int p then int_value p else 1),
                 f_category = dict_get_default d ''category'' (JStr ''General''),
                 f_name = n, f_description = ds,
                 f_steps = dict_get_default d ''steps'' (JArr []),
                 f_passes = False\<rparr>
      in Inr (row, w\<lparr>db := (db w)(project_dir self := st\<lparr>rows := rows st @ [row]\<rparr>)\<rparr>))"
  using assms by (simp add: create_feature_in_db_def FeatureCreate_def Let_def)

lemma create_feature_in_db_fault:
  assumes "map_of d ''name'' = Some n" and "map_of d ''description'' = Some ds"
    and "fault (db w (project_dir self)) = Some e"
  shows "create_feature_in_db self (JObj d) w = Inl e"
  using assms by (simp add: create_feature_in_db_def FeatureCreate_def Let_def)

lemma create_feature_in_db_Inr:
  assumes "create_feature_in_db self data w = Inr (row, w')"
  shows "w' = w\<lparr>db := (db w)(project_dir self :=
              (db w (project_dir self))\<lparr>rows := rows (db w (project_dir self)) @ [row]\<rparr>)\<rparr>
         \<and> f_passes row = False \<and> f_id row = fresh_id (rows (db w (project_dir self)))"
  using assms
  by (auto simp: create_feature_in_db_def FeatureCreate_def Let_def
      split: json.splits option.splits)

lemma try_trigger_Some:
  assumes "try_trigger nd self w = Inr (Some (content, row, w'))"
  shows "w' = w\<lparr>db := (db w)(project_dir self :=
              (db w (project_dir self))\<lparr>rows := rows (db w (project_dir self)) @ [row]\<rparr>)\<rparr>
         \<and> f_passes row = False \<and> f_id row = fresh_id (rows (db w (project_dir self)))
         \<and> nd = File (JsonDoc content)"
proof -
  from assms obtain f where nd: "nd = File f"
    by (cases nd) (auto simp: try_trigger_def)
  from assms nd have c: "create_feature_in_db self content w = Inr (row, w')" and "f = JsonDoc content"
    by (cases f; auto simp: try_trigger_def split: sum.splits if_splits)+
  with create_feature_in_db_Inr[OF c] nd show ?thesis by simp
qed

lemma unlink_Inr:
  "unlink p w = Inr w' \<Longrightarrow>
     w' = w\<lparr>fs := (fs w)(p := None)\<rparr> \<and> unlink_raises w p = None \<and> (\<exists>f. fs w p = Some (File f))"
  by (auto simp add: unlink_def split: option.splits node.splits)

lemma unlink_Inl_file:
  "unlink p w = Inl e \<Longrightarrow> fs w p = Some (File f) \<Longrightarrow> unlink_raises w p = Some e"
  by (auto simp add: unlink_def split: option.splits)

lemma run_blocks_session:
  "run_blocks bs p s = (out, p', s') \<Longrightarrow>
     project_dir s' = project_dir s \<and> complete s' = complete s \<and>
     created_feature_id s' = created_feature_id s \<and> client s' = client s \<and>
     client_entered s' = client_entered s \<and> project_name s' = project_name s \<and>
     (\<forall>f. FeatureCreated f \<notin> set out)"
proof (induction bs p s arbitrary: out p' s' rule: run_blocks.induct)
  case (1 pending self)
  then show ?case by simp
next
  case (2 t bs pending self)
  show ?case
  proof (cases "t = []")
    case True
    with 2 show ?thesis by simp
  next
    case False
    obtain out1 p1 s1 where
      r: "run_blocks bs pending (self\<lparr>messages := messages self @ [AssistantEntry t]\<rparr>) = (out1, p1, s1)"
      using prod_cases3 by blast
    from "2.prems" False r have o: "out = TextChunk t # out1" "s' = s1"
      by (simp_all add: emit_def)
    from "2.IH"(1)[OF False r] o show ?thesis by simp
  qed
next
  case (3 name inp bs pending self)
  show ?case
  proof (cases "(name = ''Write'' \<or> name = ''Edit'') \<and>
                str_contains ''.new_feature.json'' (dict_get_default inp ''file_path'' [])")
    case True
    with "3.prems" have "run_blocks bs True self = (out, p', s')" by (simp add: Let_def)
    with "3.IH"(1) True show ?thesis by blast
  next
    case False
    with "3.prems" have r: "run_blocks bs pending self = (out, p', s')"
      by (auto simp add: Let_def split: if_splits)
    show ?thesis
    proof (cases "name = ''Write'' \<or> name = ''Edit''")
      case True
      with False "3.IH"(2) r show ?thesis by blast
    next
      case False
      with "3.IH"(3) r show ?thesis by blast
    qed
  qed
next
  case (4 n bs pending self)
  then show ?case by simp
qed

lemma turn_outcome_same:
  "turn_outcome s w [] exc s w"
  by (simp add: turn_outcome_def)

lemma feature_inserted_shift:
  assumes "feature_inserted s1 w1 s' w'"
    and "project_dir s1 = project_dir s" and "db w1 = db w"
  shows "feature_inserted s w s' w'"
  using assms unfolding feature_inserted_def by simp

lemma clean_end_shift:
  assumes "clean_end s1 w1 out exc w'"
    and "project_dir s1 = project_dir s" and "db w1 = db w"
    and "\<forall>f. FeatureCreated f \<notin> set pre0"
  shows "clean_end s w (pre0 @ out) exc w'"
proof -
  from assms(1) obtain pre f row where
    e: "exc = None" "fs w' (join (project_dir s1) ''.new_feature.json'') = None" and
    o: "out = pre @ [FeatureCreated f]" and n: "\<forall>g. FeatureCreated g \<notin> set pre" and
    r: "rows (db w' (project_dir s1)) = rows (db w1 (project_dir s1)) @ [row]"
    unfolding clean_end_def by blast
  have a: "pre0 @ out = (pre0 @ pre) @ [FeatureCreated f]" using o by simp
  have b: "\<forall>g. FeatureCreated g \<notin> set (pre0 @ pre)" using n assms(4) by simp
  have c: "rows (db w' (project_dir s)) = rows (db w (project_dir s)) @ [row]"
    using r assms(2,3) by simp
  have "\<exists>pre f row.
         pre0 @ out = pre @ [FeatureCreated f] \<and> (\<forall>g. FeatureCreated g \<notin> set pre) \<and>
         rows (db w' (project_dir s)) = rows (db w (project_dir s)) @ [row]"
    apply (rule exI[of _ "pre0 @ pre"])
    apply (rule exI[of _ f])
    apply (rule exI[of _ row])
    apply (intro conjI a b c)
    done
  then show ?thesis
    unfolding clean_end_def using e assms(2) by simp
qed

lemma turn_outcome_emit:
  assumes "turn_outcome s1 w1 out exc s' w'"
    and "project_dir s1 = project_dir s" "project_name s1 = project_name s"
        "client s1 = client s" "client_entered s1 = client_entered s"
        "complete s1 = complete s" "created_feature_id s1 = created_feature_id s"
    and "db w1 = db w" and "unlink_raises w1 = unlink_raises w"
    and "\<forall>f. FeatureCreated f \<notin> set pre0"
  shows "turn_outcome s w (pre0 @ out) exc s' w'"
proof -
  have loc: "project_dir s' = project_dir s" "project_name s' = project_name s"
    "client s' = client s" "client_entered s' = client_entered s"
    "unlink_raises w' = unlink_raises w"
    using assms(1-5,9) unfolding turn_outcome_def by simp_all
  from assms(1) consider
    (same) "complete s' = complete s1" "created_feature_id s' = created_feature_id s1"
       "db w' = db w1" "\<forall>f. FeatureCreated f \<notin> set out"
  | (created) "feature_inserted s1 w1 s' w'" "\<exists>f. FeatureCreated f \<in> set out"
       "unlink_raises w1 (join (project_dir s1) ''.new_feature.json'') = None
          \<longrightarrow> clean_end s1 w1 out exc w'"
    unfolding turn_outcome_def by blast
  then show ?thesis
  proof cases
    case same
    have "complete s' = complete s" "created_feature_id s' = created_feature_id s" "db w' = db w"
      "\<forall>f. FeatureCreated f \<notin> set (pre0 @ out)"
      using same assms(6-10) by simp_all
    then show ?thesis
      unfolding turn_outcome_def using loc by blast
  next
    case created
    have a: "feature_inserted s w s' w'"
      using created(1) assms(2,8) by (rule feature_inserted_shift)
    have b: "\<exists>f. FeatureCreated f \<in> set (pre0 @ out)" using created(2) by auto
    have c: "unlink_raises w (join (project_dir s) ''.new_feature.json'') = None
               \<longrightarrow> clean_end s w (pre0 @ out) exc w'"
    proof
      assume "unlink_raises w (join (project_dir s) ''.new_feature.json'') = None"
      then have "clean_end s1 w1 out exc w'" using created(3) assms(2,9) by simp
      then show "clean_end s w (pre0 @ out) exc w'"
        using assms(2,8,10) by (rule clean_end_shift)
    qed
    show ?thesis
      unfolding turn_outcome_def by (intro conjI loc disjI2 a b c)
  qed
qed

lemma turn_outcome_world:
  assumes "turn_outcome s w1 out exc s' w'" and "db w1 = db w"
    and "unlink_raises w1 = unlink_raises w"
  shows "turn_outcome s w out exc s' w'"
  using turn_outcome_emit[OF assms(1) refl refl refl refl refl refl assms(2,3), of "[]"] by simp

lemma turn_outcome_created_end:
  assumes tt: "try_trigger nd s w = Inr (Some (content, row, w1))"
    and u: "unlink (join (project_dir s) ''.new_feature.json'') w1 = Inr w2"
  shows "turn_outcome s w [FeatureCreated content] None
           (s\<lparr>complete := True, created_feature_id := Some (f_id row)\<rparr>) w2"
proof -
  let ?tf = "join (project_dir s) ''.new_feature.json''"
  let ?s' = "s\<lparr>complete := True, created_feature_id := Some (f_id row)\<rparr>"
  note t = try_trigger_Some[OF tt]
  note v = unlink_Inr[OF u]
  have r: "rows (db w2 (project_dir s)) = rows (db w (project_dir s)) @ [row]"
    using t v by simp
  have ur: "unlink_raises w2 = unlink_raises w" using t v by simp
  have f: "fs w2 ?tf = None" using v by simp
  have ins: "feature_inserted s w ?s' w2"
    unfolding feature_inserted_def
    apply (rule exI[of _ "[]"])
    apply (rule exI[of _ row])
    using r t apply simp
    done
  have "\<exists>pre f rowa. [FeatureCreated content] = pre @ [FeatureCreated f] \<and>
          (\<forall>g. FeatureCreated g \<notin> set pre) \<and>
          rows (db w2 (project_dir s)) = rows (db w (project_dir s)) @ [rowa]"
    apply (rule exI[of _ "[]"])
    apply (rule exI[of _ content])
    apply (rule exI[of _ row])
    using r apply simp
    done
  then have ce: "clean_end s w [FeatureCreated content] None w2"
    unfolding clean_end_def using f by simp
  have m: "\<exists>f. FeatureCreated f \<in> set [FeatureCreated content]" by simp
  have loc: "project_dir ?s' = project_dir s" "project_name ?s' = project_name s"
    "client ?s' = client s" "client_entered ?s' = client_entered s"
    by simp_all
  show ?thesis
    unfolding turn_outcome_def
    using ce by (intro conjI loc ur disjI2 ins m) simp
qed

lemma turn_outcome_created_on:
  assumes tt: "try_trigger nd s w = Inr (Some (content, row, w1))"
    and nd: "fs w (join (project_dir s) ''.new_feature.json'') = Some nd"
    and u: "unlink (join (project_dir s) ''.new_feature.json'') w1 = Inl e"
    and rest: "turn_outcome (s\<lparr>complete := True, created_feature_id := Some (f_id row)\<rparr>) w1
                 out1 exc s' w'"
  shows "turn_outcome s w
           ([FeatureCreated content, ErrorChunk (Lit ''Failed to create feature from definition.'')]
              @ out1) exc s' w'"
proof -
  let ?tf = "join (project_dir s) ''.new_feature.json''"
  let ?s1 = "s\<lparr>complete := True, created_feature_id := Some (f_id row)\<rparr>"
  let ?out = "[FeatureCreated content, ErrorChunk (Lit ''Failed to create feature from definition.'')]
              @ out1"
  note t = try_trigger_Some[OF tt]
  have r1: "rows (db w1 (project_dir s)) = rows (db w (project_dir s)) @ [row]"
    and ur1: "unlink_raises w1 = unlink_raises w" and fs1: "fs w1 = fs w"
    using t by simp_all
  have "fs w1 ?tf = Some (File (JsonDoc content))" using fs1 nd t by simp
  from unlink_Inl_file[OF u this] have refuse: "unlink_raises w ?tf \<noteq> None"
    using ur1 by simp
  have loc: "project_dir s' = project_dir s" "project_name s' = project_name s"
    "client s' = client s" "client_entered s' = client_entered s"
    "unlink_raises w' = unlink_raises w"
    using rest ur1 unfolding turn_outcome_def by simp_all
  have m: "\<exists>f. FeatureCreated f \<in> set ?out" by auto
  have imp: "unlink_raises w ?tf = None \<longrightarrow> clean_end s w ?out exc w'"
    using refuse by blast
  from rest consider
    (same) "complete s' = complete ?s1" "created_feature_id s' = created_feature_id ?s1"
       "db w' = db w1"
  | (created) "feature_inserted ?s1 w1 s' w'"
    unfolding turn_outcome_def by blast
  then have ins: "feature_inserted s w s' w'"
  proof cases
    case same
    show ?thesis
      unfolding feature_inserted_def
      apply (rule exI[of _ "[]"])
      apply (rule exI[of _ row])
      using same r1 t apply simp
      done
  next
    case created
    then obtain rs2 row2 where
      a: "rows (db w' (project_dir s)) = rows (db w1 (project_dir s)) @ rs2 @ [row2]" and
      b: "\<forall>r \<in> set (rs2 @ [row2]). f_passes r = False" and
      c: "complete s'" "created_feature_id s' = Some (f_id row2)"
      unfolding feature_inserted_def by auto
    show ?thesis
      unfolding feature_inserted_def
      apply (rule exI[of _ "row # rs2"])
      apply (rule exI[of _ row2])
      using a b c r1 t apply simp
      done
  qed
  show ?thesis
    unfolding turn_outcome_def
    by (intro conjI loc disjI2 ins m imp)
qed

lemma receive_loop_outcome:
  "receive_loop es p s w = (out, exc, s', w') \<Longrightarrow> turn_outcome s w out exc s' w'"
proof (induction es arbitrary: p s w out exc s' w')
  case Nil
  then show ?case by (simp add: turn_outcome_same)
next
  case (Cons e es)
  show ?case
  proof (cases e)
    case (AssistantMessage bs)
    obtain out0 p0 s0 where rb: "run_blocks bs p s = (out0, p0, s0)"
      using prod_cases3 by blast
    obtain out1 where r: "receive_loop es p0 s0 w = (out1, exc, s', w')" and o: "out = out0 @ out1"
      using Cons.prems AssistantMessage rb
      by (cases "receive_loop es p0 s0 w") (simp add: emit_def)
    note rs = run_blocks_session[OF rb]
    show ?thesis
      unfolding o
      by (rule turn_outcome_emit[OF Cons.IH[OF r]]) (use rs in simp_all)
  next
    case UserMessage
    let ?tf = "join (project_dir s) ''.new_feature.json''"
    show ?thesis
    proof (cases "p \<and> fs w ?tf \<noteq> None")
      case False
      then have "receive_loop es False s w = (out, exc, s', w') \<or> receive_loop es p s w = (out, exc, s', w')"
        using Cons.prems UserMessage by (auto simp: Let_def split: if_splits)
      then show ?thesis using Cons.IH by blast
    next
      case True
      then obtain nd where nd: "fs w ?tf = Some nd" and p: p by auto
      show ?thesis
      proof (cases "try_trigger nd s w")
        case (Inl e)
        then obtain out1 where r: "receive_loop es False s w = (out1, exc, s', w')"
          and o: "out = [ErrorChunk (Lit ''Failed to create feature from definition.'')] @ out1"
          using Cons.prems UserMessage nd p
          by (cases "receive_loop es False s w") (simp add: emit_def Let_def)
        show ?thesis unfolding o
          by (rule turn_outcome_emit[OF Cons.IH[OF r]]) simp_all
      next
        case (Inr r)
        show ?thesis
        proof (cases r)
          case None
          then have "receive_loop es False s w = (out, exc, s', w')"
            using Cons.prems UserMessage nd p Inr by (simp add: Let_def)
          then show ?thesis using Cons.IH by blast
        next
          case (Some t)
          obtain content row w1 where t: "t = (content, row, w1)" using prod_cases3 by blast
          have tt: "try_trigger nd s w = Inr (Some (content, row, w1))" using Inr Some t by simp
          let ?s1 = "s\<lparr>complete := True, created_feature_id := Some (f_id row)\<rparr>"
          show ?thesis
          proof (cases "unlink ?tf w1")
            case (Inr w2)
            have "out = [FeatureCreated content]" "exc = None" "s' = ?s1" "w' = w2"
              using Cons.prems UserMessage nd p tt Inr by (simp_all add: Let_def)
            then show ?thesis using turn_outcome_created_end[OF tt Inr] by simp
          next
            case (Inl e)
            obtain out1 where r: "receive_loop es False ?s1 w1 = (out1, exc, s', w')"
              and o: "out = [FeatureCreated content,
                             ErrorChunk (Lit ''Failed to create feature from definition.'')] @ out1"
              using Cons.prems UserMessage nd p tt Inl
              by (cases "receive_loop es False ?s1 w1") (simp add: emit_def Let_def)
            show ?thesis unfolding o
              by (rule turn_outcome_created_on[OF tt nd Inl Cons.IH[OF r]])
          qed
        qed
      qed
    qed
  next
    case (OtherMessage n)
    then show ?thesis using Cons by simp
  next
    case (AgentWrites pa f)
    then have "receive_loop es p s (w\<lparr>fs := (fs w)(pa \<mapsto> File f)\<rparr>) = (out, exc, s', w')"
      using Cons.prems by simp
    then have "turn_outcome s (w\<lparr>fs := (fs w)(pa \<mapsto> File f)\<rparr>) out exc s' w'" by (rule Cons.IH)
    then show ?thesis by (rule turn_outcome_world) simp_all
  next
    case (AgentRemoves pa)
    then have "receive_loop es p s (w\<lparr>fs := (fs w)(pa := None)\<rparr>) = (out, exc, s', w')"
      using Cons.prems by simp
    then have "turn_outcome s (w\<lparr>fs := (fs w)(pa := None)\<rparr>) out exc s' w'" by (rule Cons.IH)
    then show ?thesis by (rule turn_outcome_world) simp_all
  next
    case (StreamRaises e)
    then show ?thesis using Cons.prems by (auto simp: turn_outcome_def)
  qed
qed

lemmas run_defs = emit_def Let_def dict_get_def dict_get_default_def join_def try_trigger_def
  create_feature_in_db_def FeatureCreate_def fresh_id_def unlink_def

lemmas demo_defs = demo_world_def demo_session_def FeatureChatSession_def demo_trigger_def
  demo_dir_def demo_row_def payload_xy_def demo_turn_def demo_options_def

lemmas session_defs = send_message_def query_claude_def start_def close_def get_default_model_def
  security_settings_def

lemma query_claude_outcome:
  assumes "query_claude message attachments turn s w = (out, exc, s', w')"
  shows "turn_outcome s w out exc s' w'"
proof (cases "client s = None")
  case True
  with assms show ?thesis by (simp add: query_claude_def turn_outcome_same)
next
  case False
  define q where "q = (case attachments of
                    Some (a # as) \<Rightarrow>
                      MultimodalQuery
                        ((if message \<noteq> [] then [TextPart message] else []) @
                         map (\<lambda>att. ImagePart (mimeType att) (base64Data att)) (a # as))
                  | _ \<Rightarrow> TextQuery message)"
  let ?w1 = "w\<lparr>calls := calls w @ [Query q]\<rparr>"
  show ?thesis
  proof (cases "query_raises turn")
    case (Some e)
    with assms False have "out = []" "s' = s" "w' = ?w1"
      by (simp_all add: query_claude_def Let_def q_def)
    moreover have "turn_outcome s ?w1 [] exc s ?w1" by (rule turn_outcome_same)
    then have "turn_outcome s w [] exc s ?w1" by (rule turn_outcome_world) simp_all
    ultimately show ?thesis by simp
  next
    case None
    with assms False have "receive_loop (response turn) False s ?w1 = (out, exc, s', w')"
      by (simp add: query_claude_def Let_def q_def)
    then have "turn_outcome s ?w1 out exc s' w'" by (rule receive_loop_outcome)
    then show ?thesis by (rule turn_outcome_world) simp_all
  qed
qed

lemma turn_outcome_fields:
  "turn_outcome s w out exc s' w' \<Longrightarrow> fields_step s out s'"
  unfolding turn_outcome_def fields_step_def feature_inserted_def by auto

lemma turn_outcome_changed:
  assumes "turn_outcome s w out exc s' w'"
    and "complete s' \<noteq> complete s \<or> created_feature_id s' \<noteq> created_feature_id s"
  shows "feature_inserted s w s' w' \<and> (\<exists>f. FeatureCreated f \<in> set out)"
  using assms unfolding turn_outcome_def by blast

lemma turn_outcome_member:
  assumes "turn_outcome s w out exc s' w'" and "FeatureCreated f \<in> set out"
  shows "feature_inserted s w s' w' \<and>
         (unlink_raises w (join (project_dir s) ''.new_feature.json'') = None
            \<longrightarrow> clean_end s w out exc w')"
  using assms unfolding turn_outcome_def by blast

lemma fields_step_append:
  "fields_step s out s' \<Longrightarrow> fields_step s (out @ rest) s'"
  unfolding fields_step_def by auto

lemma fields_step_keeps:
  "fields_step s out s' \<Longrightarrow> keeps_completion s s'"
  unfolding fields_step_def keeps_completion_def completion_consistent_def by auto

text \<open>The marker a caller of the pipeline yields when the pipeline has ended.\<close>

lemma send_message_cases:
  assumes "send_message user_message attachments turn s w = (out, s', w')"
  shows "(client s = None \<and> out = [ErrorChunk (Lit ''Session not initialized'')] \<and> s' = s \<and> w' = w) \<or>
         (\<exists>out0 exc0.
            query_claude user_message attachments turn
              (s\<lparr>messages := messages s @
                   [UserEntry user_message (attachments \<noteq> None \<and> attachments \<noteq> Some [])]\<rparr>) w
              = (out0, exc0, s', w') \<and>
            out = out0 @ [case exc0 of None \<Rightarrow> ResponseDone | Some e \<Rightarrow> ErrorChunk (Str e)])"
proof (cases "client s = None")
  case True
  with assms show ?thesis by (simp add: send_message_def)
next
  case False
  let ?s1 = "s\<lparr>messages := messages s @
                 [UserEntry user_message (attachments \<noteq> None \<and> attachments \<noteq> Some [])]\<rparr>"
  obtain out0 exc0 s2 w2 where
    q: "query_claude user_message attachments turn ?s1 w = (out0, exc0, s2, w2)"
    using prod_cases4 by blast
  have "s' = s2 \<and> w' = w2 \<and>
        out = out0 @ [case exc0 of None \<Rightarrow> ResponseDone | Some e \<Rightarrow> ErrorChunk (Str e)]"
    using assms False q by (cases exc0) (auto simp add: send_message_def Let_def)
  with q show ?thesis by blast
qed

lemma start_cases:
  assumes "start opn turn s w = (out, exc, s', w')"
  shows "(complete s' = complete s \<and> created_feature_id s' = created_feature_id s \<and>
          (\<forall>f. FeatureCreated f \<notin> set out)) \<or>
         (\<exists>s1 w3 out0 exc0.
            query_claude ''I want to add a new feature.'' None turn s1 w3 = (out0, exc0, s', w') \<and>
            project_dir s1 = project_dir s \<and> complete s1 = complete s \<and>
            created_feature_id s1 = created_feature_id s \<and>
            db w3 = db w \<and> unlink_raises w3 = unlink_raises w \<and> exc = None \<and>
            out = out0 @ [case exc0 of None \<Rightarrow> ResponseDone | Some e \<Rightarrow> ErrorChunk (Str e)])"
proof -
  let ?skill = "ROOT_DIR w @ [''.claude'', ''commands'', ''create-feature.md'']"
  let ?tf = "join (project_dir s) ''.new_feature.json''"
  let ?sf = "join (project_dir s) ''.claude_feature_settings.json''"
  let ?A = "complete s' = complete s \<and> created_feature_id s' = created_feature_id s \<and>
          (\<forall>f. FeatureCreated f \<notin> set out)"
  show ?thesis
  proof (cases "fs w ?skill")
    case None
    with assms have ?A by (auto simp add: start_def)
    then show ?thesis by blast
  next
    case (Some nd)
    show ?thesis
    proof (cases nd)
      case Dir
      with assms Some have ?A by (auto simp add: start_def)
      then show ?thesis by blast
    next
      case (File skill)
      define r where "r = (if fs w ?tf = None then Inr w else unlink ?tf w)"
      have st: "start opn turn s w =
        (case r of
            Inl e \<Rightarrow> ([], Some e, s, w)
          | Inr w1 \<Rightarrow>
             if fs w1 ?sf = Some Dir \<or> fs w1 (project_dir s) \<noteq> Some Dir
                then ([], Some (OSError ?sf), s, w1)
                else
                  (let w2 = w1\<lparr>fs := (fs w1)(?sf \<mapsto> File (JsonDoc security_settings))\<rparr>;
                       options =
                         \<lparr>opt_model = get_default_model w2,
                          opt_cli_path = which_claude w2,
                          opt_system_prompt = skill,
                          opt_allowed_tools = [''Read'', ''Write'', ''Edit'', ''Glob''],
                          opt_permission_mode = ''acceptEdits'',
                          opt_max_turns = 50,
                          opt_cwd = project_dir s,
                          opt_settings = ?sf\<rparr>
                   in case opn of
                        ConstructorRaises e \<Rightarrow> ([ErrorChunk (Str e)], None, s, w2)
                      | EnterRaises e \<Rightarrow>
                          ([ErrorChunk (Str e)], None, s\<lparr>client := Some options\<rparr>,
                           w2\<lparr>calls := calls w2 @ [Enter]\<rparr>)
                      | Opened \<Rightarrow>
                          (case query_claude ''I want to add a new feature.'' None turn
                                  (s\<lparr>client := Some options, client_entered := True\<rparr>)
                                  (w2\<lparr>calls := calls w2 @ [Enter]\<rparr>) of
                             (out, None, self2, w3) \<Rightarrow> (out @ [ResponseDone], None, self2, w3)
                           | (out, Some e, self2, w3) \<Rightarrow>
                               (out @ [ErrorChunk (Str e)], None, self2, w3))))"
        unfolding start_def r_def Let_def using Some File by simp
      show ?thesis
      proof (cases r)
        case (Inl e)
        with assms st have ?A by auto
        then show ?thesis by blast
      next
        case (Inr w1)
        have w1: "db w1 = db w" "unlink_raises w1 = unlink_raises w"
        proof -
          have "w1 = w \<or> unlink ?tf w = Inr w1" using Inr unfolding r_def by (auto split: if_splits)
          then show "db w1 = db w" "unlink_raises w1 = unlink_raises w"
            using unlink_Inr[of ?tf w w1] by auto
        qed
        show ?thesis
        proof (cases "fs w1 ?sf = Some Dir \<or> fs w1 (project_dir s) \<noteq> Some Dir")
          case True
          with assms st Inr have ?A by auto
          then show ?thesis by blast
        next
          case False
          define w2 where "w2 = w1\<lparr>fs := (fs w1)(?sf \<mapsto> File (JsonDoc security_settings))\<rparr>"
          define options where "options =
                         \<lparr>opt_model = get_default_model w2,
                          opt_cli_path = which_claude w2,
                          opt_system_prompt = skill,
                          opt_allowed_tools = [''Read'', ''Write'', ''Edit'', ''Glob''],
                          opt_permission_mode = ''acceptEdits'',
                          opt_max_turns = 50,
                          opt_cwd = project_dir s,
                          opt_settings = ?sf\<rparr>"
          have st2: "start opn turn s w =
             (case opn of
                        ConstructorRaises e \<Rightarrow> ([ErrorChunk (Str e)], None, s, w2)
                      | EnterRaises e \<Rightarrow>
                          ([ErrorChunk (Str e)], None, s\<lparr>client := Some options\<rparr>,
                           w2\<lparr>calls := calls w2 @ [Enter]\<rparr>)
                      | Opened \<Rightarrow>
                          (case query_claude ''I want to add a new feature.'' None turn
                                  (s\<lparr>client := Some options, client_entered := True\<rparr>)
                                  (w2\<lparr>calls := calls w2 @ [Enter]\<rparr>) of
                             (out, None, self2, w3) \<Rightarrow> (out @ [ResponseDone], None, self2, w3)
                           | (out, Some e, self2, w3) \<Rightarrow>
                               (out @ [ErrorChunk (Str e)], None, self2, w3)))"
            unfolding w2_def options_def using st[unfolded Let_def] Inr False by simp
          show ?thesis
          proof (cases opn)
            case (ConstructorRaises e)
            with assms st2 have ?A by auto
            then show ?thesis by blast
          next
            case (EnterRaises e)
            with assms st2 have ?A by auto
            then show ?thesis by blast
          next
            case Opened
            let ?s1 = "s\<lparr>client := Some options, client_entered := True\<rparr>"
            let ?w3 = "w2\<lparr>calls := calls w2 @ [Enter]\<rparr>"
            obtain out0 exc0 s2 w4 where
              q: "query_claude ''I want to add a new feature.'' None turn ?s1 ?w3 = (out0, exc0, s2, w4)"
              using prod_cases4 by blast
            have e: "s' = s2 \<and> w' = w4 \<and> exc = None \<and>
                  out = out0 @ [case exc0 of None \<Rightarrow> ResponseDone | Some e \<Rightarrow> ErrorChunk (Str e)]"
              using assms st2 Opened q by (cases exc0) auto
            have "query_claude ''I want to add a new feature.'' None turn ?s1 ?w3 = (out0, exc0, s', w') \<and>
              project_dir ?s1 = project_dir s \<and> complete ?s1 = complete s \<and>
              created_feature_id ?s1 = created_feature_id s \<and>
              db ?w3 = db w \<and> unlink_raises ?w3 = unlink_raises w \<and> exc = None \<and>
              out = out0 @ [case exc0 of None \<Rightarrow> ResponseDone | Some e \<Rightarrow> ErrorChunk (Str e)]"
              using q e w1 by (simp add: w2_def)
            then show ?thesis by blast
          qed
        qed
      qed
    qed
  qed
qed

lemma send_message_fields:
  assumes "send_message user_message attachments turn s w = (out, s', w')"
  shows "fields_step s out s'"
proof -
  let ?s1 = "s\<lparr>messages := messages s @
                 [UserEntry user_message (attachments \<noteq> None \<and> attachments \<noteq> Some [])]\<rparr>"
  from send_message_cases[OF assms] show ?thesis
  proof
    assume "client s = None \<and> out = [ErrorChunk (Lit ''Session not initialized'')] \<and> s' = s \<and> w' = w"
    then show ?thesis by (simp add: fields_step_def)
  next
    assume "\<exists>out0 exc0.
            query_claude user_message attachments turn ?s1 w = (out0, exc0, s', w') \<and>
            out = out0 @ [case exc0 of None \<Rightarrow> ResponseDone | Some e \<Rightarrow> ErrorChunk (Str e)]"
    then obtain out0 exc0 where
      q: "query_claude user_message attachments turn ?s1 w = (out0, exc0, s', w')" and
      o: "out = out0 @ [case exc0 of None \<Rightarrow> ResponseDone | Some e \<Rightarrow> ErrorChunk (Str e)]"
      by blast
    have "fields_step ?s1 out0 s'"
      using query_claude_outcome[OF q] by (rule turn_outcome_fields)
    then have "fields_step ?s1 out s'" unfolding o by (rule fields_step_append)
    then show ?thesis by (simp add: fields_step_def)
  qed
qed

lemma start_fields:
  assumes "start opn turn s w = (out, exc, s', w')"
  shows "fields_step s out s'"
proof -
  from start_cases[OF assms] show ?thesis
  proof
    assume "complete s' = complete s \<and> created_feature_id s' = created_feature_id s \<and>
          (\<forall>f. FeatureCreated f \<notin> set out)"
    then show ?thesis by (simp add: fields_step_def)
  next
    assume "\<exists>s1 w3 out0 exc0.
            query_claude ''I want to add a new feature.'' None turn s1 w3 = (out0, exc0, s', w') \<and>
            project_dir s1 = project_dir s \<and> complete s1 = complete s \<and>
            created_feature_id s1 = created_feature_id s \<and>
            db w3 = db w \<and> unlink_raises w3 = unlink_raises w \<and> exc = None \<and>
            out = out0 @ [case exc0 of None \<Rightarrow> ResponseDone | Some e \<Rightarrow> ErrorChunk (Str e)]"
    then obtain s1 w3 out0 exc0 where
      q: "query_claude ''I want to add a new feature.'' None turn s1 w3 = (out0, exc0, s', w')" and
      c: "complete s1 = complete s" "created_feature_id s1 = created_feature_id s" and
      o: "out = out0 @ [case exc0 of None \<Rightarrow> ResponseDone | Some e \<Rightarrow> ErrorChunk (Str e)]"
      by blast
    have "fields_step s1 out0 s'"
      using query_claude_outcome[OF q] by (rule turn_outcome_fields)
    then have "fields_step s1 out s'" unfolding o by (rule fields_step_append)
    then show ?thesis using c by (simp add: fields_step_def)
  qed
qed

lemma close_fields: "fields_step s [] (fst (close s w))"
  by (simp add: close_def fields_step_def)

text \<open>
  A run of the pipeline with a \<open>feature_created\<close> chunk, seen from the caller that
  appends its marker.
\<close>

lemma created_from_outcome:
  assumes t: "turn_outcome s1 w1 out0 exc0 s' w'" and m: "FeatureCreated f \<in> set out0"
    and p: "project_dir s1 = project_dir s" and d: "db w1 = db w"
    and u: "unlink_raises w1 = unlink_raises w"
  shows "feature_inserted s w s' w' \<and>
         (unlink_raises w (join (project_dir s) ''.new_feature.json'') = None \<longrightarrow>
            exc0 = None \<and> created_turn s w f (out0 @ [ResponseDone]) s' w')"
proof -
  let ?tf = "join (project_dir s) ''.new_feature.json''"
  from turn_outcome_member[OF t m]
  have fi1: "feature_inserted s1 w1 s' w'" and
    ce1: "unlink_raises w1 (join (project_dir s1) ''.new_feature.json'') = None
            \<longrightarrow> clean_end s1 w1 out0 exc0 w'"
    by blast+
  have fi: "feature_inserted s w s' w'" using fi1 p d by (rule feature_inserted_shift)
  have "exc0 = None \<and> created_turn s w f (out0 @ [ResponseDone]) s' w'"
    if n: "unlink_raises w ?tf = None"
  proof -
    from ce1 n u p have "clean_end s1 w1 out0 exc0 w'" by simp
    then obtain pre g row where
      e: "exc0 = None" and tf: "fs w' ?tf = None" and
      o: "out0 = pre @ [FeatureCreated g]" and np: "\<forall>h. FeatureCreated h \<notin> set pre" and
      r: "rows (db w' (project_dir s)) = rows (db w (project_dir s)) @ [row]"
      unfolding clean_end_def using p d by auto
    from fi obtain rs row' where
      r': "rows (db w' (project_dir s)) = rows (db w (project_dir s)) @ rs @ [row']" and
      ps: "\<forall>x \<in> set (rs @ [row']). f_passes x = False" and
      c: "complete s'" "created_feature_id s' = Some (f_id row')"
      unfolding feature_inserted_def by blast
    from r r' have "rs @ [row'] = [row]" by simp
    then have eq: "rs = []" "row' = row" by (simp_all add: append_eq_Cons_conv)
    have g: "g = f" using m o np by auto
    have "created_turn s w f (out0 @ [ResponseDone]) s' w'"
      unfolding created_turn_def
      apply (rule exI[of _ pre])
      apply (rule exI[of _ row])
      using o np g r c ps eq tf apply simp
      done
    with e show ?thesis by simp
  qed
  with fi show ?thesis by blast
qed

lemma send_message_created:
  assumes a: "send_message user_message attachments turn self w = (out, self', w')"
    and m: "FeatureCreated f \<in> set out"
  shows "feature_inserted self w self' w' \<and>
         (unlink_raises w (join (project_dir self) ''.new_feature.json'') = None \<longrightarrow>
            created_turn self w f out self' w')"
proof -
  let ?s1 = "self\<lparr>messages := messages self @
                 [UserEntry user_message (attachments \<noteq> None \<and> attachments \<noteq> Some [])]\<rparr>"
  from send_message_cases[OF a] m obtain out0 exc0 where
    q: "query_claude user_message attachments turn ?s1 w = (out0, exc0, self', w')" and
    o: "out = out0 @ [case exc0 of None \<Rightarrow> ResponseDone | Some e \<Rightarrow> ErrorChunk (Str e)]"
    by auto
  have m0: "FeatureCreated f \<in> set out0" using m o by (cases exc0) auto
  have "project_dir ?s1 = project_dir self" by simp
  from created_from_outcome[OF query_claude_outcome[OF q] m0 this refl refl]
  have fi: "feature_inserted self w self' w'" and
    ct: "unlink_raises w (join (project_dir self) ''.new_feature.json'') = None \<longrightarrow>
            exc0 = None \<and> created_turn self w f (out0 @ [ResponseDone]) self' w'"
    by blast+
  have "unlink_raises w (join (project_dir self) ''.new_feature.json'') = None \<longrightarrow>
            created_turn self w f out self' w'"
    using ct o by auto
  with fi show ?thesis by blast
qed

lemma start_created:
  assumes a: "start opn turn self w = (out1, exc1, self1, w1)"
    and m: "FeatureCreated f \<in> set out1"
  shows "exc1 = None \<and> feature_inserted self w self1 w1 \<and>
         (unlink_raises w (join (project_dir self) ''.new_feature.json'') = None \<longrightarrow>
            created_turn self w f out1 self1 w1)"
proof -
  from start_cases[OF a] m obtain s0 w0 out0 exc0 where
    q: "query_claude ''I want to add a new feature.'' None turn s0 w0 = (out0, exc0, self1, w1)" and
    p: "project_dir s0 = project_dir self" and d: "db w0 = db w" and
    u: "unlink_raises w0 = unlink_raises w" and e: "exc1 = None" and
    o: "out1 = out0 @ [case exc0 of None \<Rightarrow> ResponseDone | Some e \<Rightarrow> ErrorChunk (Str e)]"
    by blast
  have m0: "FeatureCreated f \<in> set out0" using m o by (cases exc0) auto
  from created_from_outcome[OF query_claude_outcome[OF q] m0 p d u]
  have fi: "feature_inserted self w self1 w1" and
    ct: "unlink_raises w (join (project_dir self) ''.new_feature.json'') = None \<longrightarrow>
            exc0 = None \<and> created_turn self w f (out0 @ [ResponseDone]) self1 w1"
    by blast+
  have "unlink_raises w (join (project_dir self) ''.new_feature.json'') = None \<longrightarrow>
            created_turn self w f out1 self1 w1"
    using ct o by auto
  with fi e show ?thesis by blast
qed

lemma fields_step_changed:
  "fields_step s out s' \<Longrightarrow>
     complete s' \<noteq> complete s \<or> created_feature_id s' \<noteq> created_feature_id s \<Longrightarrow>
     \<exists>f. FeatureCreated f \<in> set out"
  unfolding fields_step_def by auto

lemma map_of_dict_pop: "map_of (dict_pop k d) = (map_of d)(k := None)"
  by (induction d) (auto simp add: dict_pop_def)

lemma map_of_dict_set: "map_of (dict_set k v d) = (map_of d)(k \<mapsto> v)"
  by (induction d) auto

lemma keys_dict_pop: "set (map fst (dict_pop k d)) = set (map fst d) - {k}"
  by (auto simp add: dict_pop_def)

lemma keys_dict_set: "set (map fst (dict_set k v d)) = insert k (set (map fst d))"
proof -
  have "fst ` set (dict_set k v d) = dom (map_of (dict_set k v d))"
    by (simp add: dom_map_of_conv_image_fst)
  also have "\<dots> = insert k (dom (map_of d))" by (simp add: map_of_dict_set)
  also have "\<dots> = insert k (fst ` set d)" by (simp add: dom_map_of_conv_image_fst)
  finally show ?thesis by simp
qed

lemma distinct_dict_pop: "distinct (map fst d) \<Longrightarrow> distinct (map fst (dict_pop k d))"
  by (simp add: dict_pop_def distinct_map_filter)

lemma distinct_dict_set: "distinct (map fst d) \<Longrightarrow> distinct (map fst (dict_set k v d))"
proof (induction d)
  case Nil
  then show ?case by simp
next
  case (Cons kv d)
  obtain k' v' where kv: "kv = (k', v')" by (cases kv)
  show ?case
  proof (cases "k' = k")
    case True
    with Cons.prems kv show ?thesis by simp
  next
    case False
    have "k' \<notin> set (map fst (dict_set k v d))"
      using Cons.prems kv False by (simp add: keys_dict_set del: set_map)
    with Cons kv False show ?thesis by simp
  qed
qed

lemma values_dict_pop: "set (map snd (dict_pop k d)) \<subseteq> set (map snd d)"
  by (auto simp add: dict_pop_def)

lemma values_dict_set: "set (map snd (dict_set k v d)) \<subseteq> insert v (set (map snd d))"
  by (induction d) (force split: if_splits)+

lemma close_at_fields:
  "sessions (close_at a w) = sessions w" "next_addr (close_at a w) = next_addr w"
  "\<not> is_open (heap (close_at a w) a)" "b \<noteq> a \<Longrightarrow> heap (close_at a w) b = heap w b"
  by (simp_all add: close_at_def close_def is_open_def)

lemma registry_ok_close_at: "registry_ok (close_at a w) = registry_ok w"
  by (simp add: registry_ok_def close_at_fields)

lemma fold_close_at_fields:
  "sessions (fold close_at as w) = sessions w \<and> next_addr (fold close_at as w) = next_addr w"
  by (induction as arbitrary: w) (simp_all add: close_at_fields)

lemma registry_ok_locked:
  assumes "registry_ok w" and "create_session_locked pn pd w = (old_session, new, w1)"
  shows "registry_ok w1" and "map_of (sessions w1) pn = Some new"
    and "heap w1 new = FeatureChatSession pn pd" and "old_session = map_of (sessions w) pn"
    and "new = next_addr w" and "next_addr w1 = Suc new"
    and "\<And>old. old_session = Some old \<Longrightarrow> old < new \<and> heap w1 old = heap w old"
    and "\<And>k. k \<noteq> pn \<Longrightarrow> map_of (sessions w1) k = map_of (sessions w) k"
proof -
  have n: "new = next_addr w" and o: "old_session = map_of (sessions w) pn"
    and w1: "w1 = w\<lparr>heap := (heap w)(new := FeatureChatSession pn pd), next_addr := Suc new,
                    sessions := dict_set pn new (dict_pop pn (sessions w))\<rparr>"
    using assms(2) by (auto simp add: create_session_locked_def Let_def)
  show "new = next_addr w" by (rule n)
  show "old_session = map_of (sessions w) pn" by (rule o)
  show "next_addr w1 = Suc new" by (simp add: w1)
  show "heap w1 new = FeatureChatSession pn pd" by (simp add: w1)
  show "map_of (sessions w1) pn = Some new" by (simp add: w1 map_of_dict_set)
  show "\<And>k. k \<noteq> pn \<Longrightarrow> map_of (sessions w1) k = map_of (sessions w) k"
    by (simp add: w1 map_of_dict_set map_of_dict_pop)
  have d: "distinct (map fst (sessions w1))"
    using assms(1) by (simp add: w1 registry_ok_def distinct_dict_set distinct_dict_pop)
  have "set (map snd (sessions w1)) \<subseteq> insert new (set (map snd (sessions w)))"
    using values_dict_set[of pn new "dict_pop pn (sessions w)"] values_dict_pop[of pn "sessions w"]
    by (auto simp add: w1)
  moreover have bound: "\<forall>a \<in> set (map snd (sessions w)). a < next_addr w"
    using assms(1) unfolding registry_ok_def by blast
  ultimately have "\<forall>a \<in> set (map snd (sessions w1)). a < Suc new"
    using n by (metis insert_iff less_Suc_eq subsetD)
  then have "\<forall>a \<in> set (map snd (sessions w1)). a < next_addr w1"
    by (simp add: w1)
  with d show "registry_ok w1" by (simp add: registry_ok_def)
  show "\<And>old. old_session = Some old \<Longrightarrow> old < new \<and> heap w1 old = heap w old"
  proof -
    fix old assume "old_session = Some old"
    then have "(pn, old) \<in> set (sessions w)" using o by (simp add: map_of_SomeD)
    then have "old \<in> set (map snd (sessions w))" by force
    then have "old < new" using bound n by blast
    then show "old < new \<and> heap w1 old = heap w old" by (simp add: w1)
  qed
qed

section \<open>Feature creation: the priority of the new row\<close>

text \<open>
  Claim C1 says that a payload with name and description and no priority key gives a row
  whose priority is one more than the largest priority in the store (1 for an empty
  store), with category "General" and no steps. On the code the local \<open>priority\<close>
  starts at 1 and stays there when the key is absent, the schema object is built with
  it, and so the branch that asks the store for the largest priority is never taken:
  the row gets priority 1 whatever the store holds. The category and the steps are the
  defaults when their keys are absent too.
\<close>

theorem create_feature_without_priority:
  assumes "map_of d ''name'' = Some n" and "map_of d ''description'' = Some ds"
    and "map_of d ''priority'' = None"
    and "fault (db w (project_dir self)) = None"
  shows "\<exists>row w'. create_feature_in_db self (JObj d) w = Inr (row, w') \<and>
           rows (db w' (project_dir self)) = rows (db w (project_dir self)) @ [row] \<and>
           f_priority row = 1 \<and>
           f_category row = dict_get_default d ''category'' (JStr ''General'') \<and>
           f_steps row = dict_get_default d ''steps'' (JArr [])"
  using assms by (simp add: create_feature_in_db_dict Let_def dict_get_def)

text \<open>
  In the demo world the largest priority in the store is 3, and the payload
  \<open>{"name": "X", "description": "Y"}\<close> is inserted with priority 1, not 4.
\<close>

theorem create_feature_without_priority_demo:
  "first_by_priority_desc (rows (db (demo_world (JsonDoc payload_xy)) (project_dir demo_session)))
     = Some demo_row \<and>
   f_priority demo_row = 3 \<and>
   map_sum id fst (create_feature_in_db demo_session payload_xy (demo_world (JsonDoc payload_xy)))
     = Inr \<lparr>f_id = 2, f_priority = 1, f_category = JStr ''General'', f_name = JStr ''X'',
            f_description = JStr ''Y'', f_steps = JArr [], f_passes = False\<rparr>"
  using create_feature_without_priority
    [of "[(''name'', JStr ''X''), (''description'', JStr ''Y'')]" "JStr ''X''" "JStr ''Y''"
        "demo_world (JsonDoc payload_xy)" demo_session]
  by (simp add: create_feature_in_db_def FeatureCreate_def Let_def payload_xy_def demo_world_def
      demo_session_def FeatureChatSession_def demo_row_def dict_get_def dict_get_default_def
      fresh_id_def demo_dir_def)

text \<open>
  Claim C4 says that a numeric priority \<open>p\<close> in the payload is the priority of the row.
  The code keeps the given value only when it is truthy and an \<open>int\<close>: a fractional
  number fails \<open>isinstance(p, int)\<close> and the row gets the default 1. What holds: an
  integer priority other than 0 is the priority of the row, whatever the store holds
  (the store is not asked for its largest priority), and a priority that json.loads
  reads as a float is not used.
\<close>

theorem create_feature_integer_priority:
  assumes "map_of d ''name'' = Some n" and "map_of d ''description'' = Some ds"
    and "fault (db w (project_dir self)) = None"
  shows "(map_of d ''priority'' = Some (JInt p) \<and> p \<noteq> 0 \<longrightarrow>
            (\<exists>row w'. create_feature_in_db self (JObj d) w = Inr (row, w') \<and>
               rows (db w' (project_dir self)) = rows (db w (project_dir self)) @ [row] \<and>
               f_priority row = p)) \<and>
         (map_of d ''priority'' = Some (JFloat r) \<longrightarrow>
            (\<exists>row w'. create_feature_in_db self (JObj d) w = Inr (row, w') \<and>
               rows (db w' (project_dir self)) = rows (db w (project_dir self)) @ [row] \<and>
               f_priority row = 1))"
  using assms by (simp add: create_feature_in_db_dict Let_def dict_get_def)

text \<open>Priority 5 is kept; priority 2.5 gives a row of priority 1.\<close>

theorem create_feature_integer_priority_demo:
  "map_sum id (\<lambda>r. f_priority (fst r))
     (create_feature_in_db demo_session payload_p5 (demo_world (JsonDoc payload_p5))) = Inr 5 \<and>
   map_sum id (\<lambda>r. f_priority (fst r))
     (create_feature_in_db demo_session payload_float (demo_world (JsonDoc payload_float))) = Inr 1"
  using create_feature_integer_priority
    [of "[(''name'', JStr ''X''), (''description'', JStr ''Y''), (''priority'', JInt 5)]"
        "JStr ''X''" "JStr ''Y''" "demo_world (JsonDoc payload_p5)" demo_session 5 0]
    create_feature_integer_priority
    [of "[(''name'', JStr ''X''), (''description'', JStr ''Y''), (''priority'', JFloat (5 / 2))]"
        "JStr ''X''" "JStr ''Y''" "demo_world (JsonDoc payload_float)" demo_session 0 "5 / 2"]
  by (auto simp add: payload_p5_def payload_float_def demo_world_def demo_session_def
      FeatureChatSession_def)

text \<open>
  The claim as stated fails at the numeric priority 2.5: the row is inserted, and its
  priority is not 2.5.
\<close>

theorem float_priority_not_used:
  "map_sum id (\<lambda>r. real_of_int (f_priority (fst r)) = 5 / 2)
     (create_feature_in_db demo_session payload_float (demo_world (JsonDoc payload_float)))
   = Inr False"
  by (simp add: create_feature_in_db_def FeatureCreate_def Let_def payload_float_def demo_world_def
      demo_session_def FeatureChatSession_def demo_row_def dict_get_def dict_get_default_def
      fresh_id_def demo_dir_def)

section \<open>A message to a session that was not opened\<close>

text \<open>
  On a session whose client is null (a new session, one whose \<open>start\<close> stopped before
  the client object was assigned, a closed one), \<open>send_message\<close> yields the one error
  chunk and changes nothing: the session, its history included, and the world (the
  store, the files and the log of calls on clients) are what they were.
\<close>

lemma send_message_without_client:
  assumes "client self = None"
  shows "send_message user_message attachments turn self w =
           ([ErrorChunk (Lit ''Session not initialized'')], self, w)"
  using assms by (simp add: send_message_def)

text \<open>
  Claim C6 says that \<open>send_message\<close> on a session whose client was never successfully
  opened yields exactly one error chunk and has no side effect: nothing is appended to
  the history and no query is sent to the client. A session whose \<open>start\<close> failed in
  \<open>__aenter__\<close> is such a session, and there the code does otherwise. \<open>start\<close>
  assigns \<open>self.client\<close> before it awaits \<open>__aenter__\<close>, and its \<open>except\<close> does not
  take the assignment back; \<open>send_message\<close> tests \<open>self.client\<close> alone, where
  \<open>close\<close> tests \<open>self.client and self._client_entered\<close>. So after a \<open>start\<close> that
  yielded the error of \<open>__aenter__\<close> the session holds a client, and a message to it is
  appended to the history and sent to that client as a query; when the query raises,
  the one chunk of the turn is its error, not "Session not initialized".
\<close>

theorem send_message_after_failed_enter:
  assumes "start (EnterRaises e) turn0 self w = ([ErrorChunk (Str e)], exc, self1, w1)"
    and "query_raises turn = Some e'"
  shows "client self1 \<noteq> None \<and> client_entered self1 = client_entered self \<and>
         send_message user_message None turn self1 w1 =
           ([ErrorChunk (Str e')],
            self1\<lparr>messages := messages self1 @ [UserEntry user_message False]\<rparr>,
            w1\<lparr>calls := calls w1 @ [Query (TextQuery user_message)]\<rparr>)"
proof -
  have c: "client self1 \<noteq> None \<and> client_entered self1 = client_entered self"
    using assms(1)
    by (auto simp add: start_def Let_def split: option.splits node.splits sum.splits if_splits)
  then show ?thesis
    using assms(2) by (simp add: send_message_def query_claude_def Let_def)
qed

text \<open>
  A new session of the demo project whose \<open>start\<close> fails in \<open>__aenter__\<close>, and then
  the message \<open>hello\<close>: the session is not open, the message is in the history, and the
  log of calls holds the query.
\<close>

theorem send_message_after_failed_enter_demo:
  "fst (start (EnterRaises (AgentError ''CLI not found'')) demo_turn
          (FeatureChatSession ''demo'' demo_dir) (demo_world (JsonDoc payload_xy)))
     = [ErrorChunk (Str (AgentError ''CLI not found''))] \<and>
   \<not> is_open (fst (snd (snd (start (EnterRaises (AgentError ''CLI not found'')) demo_turn
          (FeatureChatSession ''demo'' demo_dir) (demo_world (JsonDoc payload_xy)))))) \<and>
   (let r = start (EnterRaises (AgentError ''CLI not found'')) demo_turn
              (FeatureChatSession ''demo'' demo_dir) (demo_world (JsonDoc payload_xy));
        t = send_message ''hello'' None
              \<lparr>query_raises = Some (AgentError ''Not connected''), response = []\<rparr>
              (fst (snd (snd r))) (snd (snd (snd r)))
    in fst t = [ErrorChunk (Str (AgentError ''Not connected''))] \<and>
       messages (fst (snd t)) = [UserEntry ''hello'' False] \<and>
       calls (snd (snd t)) = [Enter, Query (TextQuery ''hello'')])"
proof -
  let ?r = "start (EnterRaises (AgentError ''CLI not found'')) demo_turn
              (FeatureChatSession ''demo'' demo_dir) (demo_world (JsonDoc payload_xy))"
  let ?turn = "\<lparr>query_raises = Some (AgentError ''Not connected''), response = []\<rparr>"
  have o: "fst ?r = [ErrorChunk (Str (AgentError ''CLI not found''))]"
    by (simp add: session_defs run_defs demo_defs)
  have m: "messages (fst (snd (snd ?r))) = []" "calls (snd (snd (snd ?r))) = [Enter]"
    "client_entered (fst (snd (snd ?r))) = False"
    by (simp_all add: session_defs run_defs demo_defs)
  have r: "?r = ([ErrorChunk (Str (AgentError ''CLI not found''))], fst (snd ?r),
                 fst (snd (snd ?r)), snd (snd (snd ?r)))"
    using o by (metis prod.collapse)
  have q: "query_raises ?turn = Some (AgentError ''Not connected'')" by simp
  from send_message_after_failed_enter[OF r q, of "''hello''"] o m
  show ?thesis by (simp add: Let_def is_open_def)
qed

section \<open>Malformed frames on the socket\<close>

text \<open>
  Claim C7 says that every inbound text frame that is not valid JSON gets exactly one
  error frame and that the handler then goes on receiving. The inner \<open>except\<close> of the
  handler names JSONDecodeError. What holds: a frame on which \<open>json.loads\<close> raises
  JSONDecodeError makes the handler send exactly one error frame, and the receive loop
  goes on with the frames that follow, from the same local session and the same world.
\<close>

theorem malformed_frame_one_error:
  "receive_frames pn pp ((NotJson t, opn, turn) # rest) session w =
     emit [ErrorChunk (Lit ''Invalid JSON'')] (receive_frames pn pp rest session w)"
  by simp

text \<open>A malformed frame and then a ping: the error frame, then the pong.\<close>

theorem malformed_frame_one_error_demo:
  "fst (receive_frames ''demo'' demo_dir
          [(NotJson ''{oops'', Opened, demo_turn),
           (JsonDoc (JObj [(''type'', JStr ''ping'')]), Opened, demo_turn)]
          None (demo_world (JsonDoc payload_xy)))
     = [ErrorChunk (Lit ''Invalid JSON''), Pong] \<and>
   fst (snd (receive_frames ''demo'' demo_dir
          [(NotJson ''{oops'', Opened, demo_turn),
           (JsonDoc (JObj [(''type'', JStr ''ping'')]), Opened, demo_turn)]
          None (demo_world (JsonDoc payload_xy)))) = Disconnected"
  using malformed_frame_one_error
    [of "''demo''" demo_dir "''{oops''" Opened demo_turn
        "[(JsonDoc (JObj [(''type'', JStr ''ping'')]), Opened, demo_turn)]" None
        "demo_world (JsonDoc payload_xy)"]
  by (simp add: emit_def dict_get_def)

text \<open>
  The claim as stated fails on a frame of two thousand opening brackets, which is not
  JSON: \<open>json.loads\<close> raises RecursionError, the inner \<open>except\<close> does not catch it, the
  outer one sends the error and the handler returns. The ping that follows is never
  received.
\<close>

theorem deep_frame_ends_handler:
  "receive_frames ''demo'' demo_dir
      [(TooDeep (replicate 2000 (CHR ''['')), Opened, demo_turn),
       (JsonDoc (JObj [(''type'', JStr ''ping'')]), Opened, demo_turn)]
      None (demo_world (JsonDoc payload_xy))
     = ([ErrorChunk (Str RecursionError)], Failed, demo_world (JsonDoc payload_xy))"
  by simp

text \<open>
  So it is for every frame on which the parser raises something else than
  JSONDecodeError: one error frame with the text of the exception, and the end.
\<close>

lemma other_parser_error_ends_handler:
  assumes "json_loads data = Inl e" and "e \<noteq> JSONDecodeError"
  shows "receive_frames pn pp ((data, opn, turn) # rest) session w = ([ErrorChunk (Str e)], Failed, w)"
  using assms by simp

section \<open>The trigger file\<close>

text \<open>
  Claim C8: a Write or Edit invocation arms the pending-write flag exactly when
  \<open>.new_feature.json\<close> occurs in its \<open>file_path\<close> as a substring (\<open>sublist\<close>: a
  contiguous run); an armed flag stays armed. Nothing else of the path is kept: the rest
  of the stream is processed from the flag alone, and the check at the next tool result
  reads \<open>project_dir / ".new_feature.json"\<close>.
\<close>

theorem write_or_edit_arms_flag:
  assumes "name = ''Write'' \<or> name = ''Edit''"
  shows "run_blocks [ToolUseBlock name inp] False self =
           ([], sublist ''.new_feature.json'' (dict_get_default inp ''file_path'' []), self) \<and>
         run_blocks (ToolUseBlock name inp # bs) pending self =
           run_blocks bs
             (pending \<or> sublist ''.new_feature.json'' (dict_get_default inp ''file_path'' [])) self \<and>
         receive_loop (AssistantMessage [ToolUseBlock name inp] # es) pending self w =
           receive_loop es
             (pending \<or> sublist ''.new_feature.json'' (dict_get_default inp ''file_path'' [])) self w"
  using assms by (auto simp add: Let_def emit_def str_contains_sublist[symmetric])

text \<open>
  A write to \<open>/elsewhere/x.new_feature.json.bak\<close> arms the flag, and the tool result
  that follows creates the feature from the trigger file of the project directory.
\<close>

theorem write_or_edit_arms_flag_demo:
  "sublist ''.new_feature.json'' ''/elsewhere/x.new_feature.json.bak'' \<and>
   fst (receive_loop
      [AssistantMessage
         [ToolUseBlock ''Write'' [(''file_path'', ''/elsewhere/x.new_feature.json.bak'')]],
       UserMessage]
      False demo_session (demo_world (JsonDoc payload_xy))) = [FeatureCreated payload_xy]"
  using write_or_edit_arms_flag
    [of "''Write''" "[(''file_path'', ''/elsewhere/x.new_feature.json.bak'')]" demo_session
        "[]" False "[UserMessage]" "demo_world (JsonDoc payload_xy)"]
  by (simp add: str_contains_sublist[symmetric] run_defs demo_defs)

text \<open>
  A trigger file that cannot be used gets the error chunk from the \<open>except\<close> of the
  \<open>try\<close>: so for a text that is not JSON, and for a payload that is a number.
\<close>

lemma unusable_definition_error_chunk:
  assumes "fs w (join (project_dir self) ''.new_feature.json'') = Some (File f)"
    and "f = NotJson t \<or> f = TooDeep t \<or> f = TooLong t \<or> f = JsonDoc (JInt i)"
  shows "receive_loop (UserMessage # es) True self w =
           emit [ErrorChunk (Lit ''Failed to create feature from definition.'')]
             (receive_loop es False self w)"
  using assms by (auto simp add: Let_def try_trigger_def)

text \<open>
  Claim C2 says that a payload without name or without description gives an error
  chunk, no row, and a cleared flag. The code gives no chunk there: the test of the two
  keys sits in the same \<open>try\<close> and has no \<open>else\<close>, so a payload object that lacks
  one of the keys passes in silence, while every other unusable definition gets the
  error chunk. What the code does at such a payload: the tool result yields nothing,
  the session and the world (the store included) stay as they are, and the loop goes on
  with the flag cleared.
\<close>

theorem missing_field_is_skipped:
  assumes "fs w (join (project_dir self) ''.new_feature.json'') = Some (File (JsonDoc (JObj d)))"
    and "''name'' \<notin> set (map fst d) \<or> ''description'' \<notin> set (map fst d)"
  shows "receive_loop (UserMessage # es) True self w = receive_loop es False self w"
  using assms by (auto simp add: Let_def try_trigger_def)

text \<open>
  The payload \<open>{"description": "Y"}\<close> lacks its name: the tool result yields no chunk
  at all. When the agent then writes a valid payload, the feature is created.
\<close>

theorem missing_field_is_skipped_demo:
  "receive_loop [UserMessage] True demo_session (demo_world (JsonDoc payload_no_name))
     = ([], None, demo_session, demo_world (JsonDoc payload_no_name)) \<and>
   fst (receive_loop (UserMessage # retry_events) True demo_session
          (demo_world (JsonDoc payload_no_name))) = [FeatureCreated payload_xy]"
  using missing_field_is_skipped
    [of "demo_world (JsonDoc payload_no_name)" demo_session "[(''description'', JStr ''Y'')]" "[]"]
    missing_field_is_skipped
    [of "demo_world (JsonDoc payload_no_name)" demo_session "[(''description'', JStr ''Y'')]"
        retry_events]
  by (simp add: run_defs demo_defs payload_no_name_def retry_events_def)

text \<open>
  Claim C10: when the payload has both keys and the store raises in the transaction, the
  tool result yields the one error chunk, and the loop goes on over the rest of the
  stream with the flag cleared, from the same session (complete and created_feature_id
  untouched) and the same world (the trigger file still on disk, the store as it
  was).
\<close>

theorem store_failure_keeps_session:
  assumes "fs w (join (project_dir self) ''.new_feature.json'') = Some (File (JsonDoc (JObj d)))"
    and "map_of d ''name'' = Some n" and "map_of d ''description'' = Some ds"
    and "fault (db w (project_dir self)) = Some e"
  shows "receive_loop (UserMessage # es) True self w =
           emit [ErrorChunk (Lit ''Failed to create feature from definition.'')]
             (receive_loop es False self w)"
proof -
  have "''name'' \<in> set (map fst d)" "''description'' \<in> set (map fst d)"
    using assms(2,3) by (auto dest: map_of_SomeD intro: rev_image_eqI)
  moreover have "create_feature_in_db self (JObj d) w = Inl e"
    using assms(2-4) by (rule create_feature_in_db_fault)
  ultimately show ?thesis
    using assms(1) by (simp add: Let_def try_trigger_def)
qed

text \<open>
  With a store that raises, the error chunk is followed by the text of the next
  message; the session is not complete and the trigger file is still there.
\<close>

theorem store_failure_keeps_session_demo:
  "receive_loop [UserMessage, AssistantMessage [TextBlock ''Sorry.'']] True demo_session faulty_world
     = ([ErrorChunk (Lit ''Failed to create feature from definition.''), TextChunk ''Sorry.''],
        None, demo_session\<lparr>messages := [AssistantEntry ''Sorry.'']\<rparr>, faulty_world) \<and>
   complete demo_session = False \<and> created_feature_id demo_session = None \<and>
   fs faulty_world demo_trigger = Some (File (JsonDoc payload_xy))"
  using store_failure_keeps_session
    [of faulty_world demo_session "[(''name'', JStr ''X''), (''description'', JStr ''Y'')]"
        "JStr ''X''" "JStr ''Y''" "StoreError ''database is locked''"
        "[AssistantMessage [TextBlock ''Sorry.'']]"]
  by (simp add: run_defs demo_defs faulty_world_def)

section \<open>The turn that creates the feature\<close>

text \<open>
  The \<open>feature_created\<close> chunk is yielded before the trigger file is unlinked: in the
  state in which the consumer receives the chunk, the row is in the store and the file
  is still on disk. The file goes when the consumer asks for the next chunk and the
  unlink does not raise.
\<close>

lemma feature_created_before_unlink:
  assumes "fs w (join (project_dir self) ''.new_feature.json'') = Some nd"
    and "try_trigger nd self w = Inr (Some (content, row, w1))"
  shows "fs w1 (join (project_dir self) ''.new_feature.json'') = Some nd \<and>
         rows (db w1 (project_dir self)) = rows (db w (project_dir self)) @ [row]"
  using assms try_trigger_Some[OF assms(2)] by simp

text \<open>
  Claim C5 says that in a turn with a \<open>feature_created\<close> chunk the row was inserted
  with passes false, the session is complete with the row's identifier, the trigger file
  is gone, and no chunk follows the \<open>feature_created\<close> chunk. Two things stand against
  it. The pipeline returns right after that chunk, but \<open>send_message\<close> and \<open>start\<close>
  then yield the \<open>response_done\<close> marker. And the unlink of the trigger file follows the
  chunk inside the \<open>try\<close>: when it raises, the \<open>except\<close> yields an error chunk, the
  file stays, and the loop goes on over the rest of the stream, where a further write
  may insert a further row. What holds for a turn of \<open>send_message\<close> and for the turn
  of \<open>start\<close>, with the chunks consumed to the end: rows with passes false were
  inserted and the session is complete with the identifier of the last of them; and
  when the file system does not refuse the unlink, one row was inserted, the trigger
  file is gone, and the \<open>feature_created\<close> chunk is followed by the \<open>response_done\<close>
  marker and nothing else.
\<close>

theorem feature_created_ends_turn:
  "(send_message user_message attachments turn self w = (out, self', w') \<and>
      FeatureCreated f \<in> set out \<longrightarrow>
        feature_inserted self w self' w' \<and>
        (unlink_raises w (join (project_dir self) ''.new_feature.json'') = None \<longrightarrow>
           created_turn self w f out self' w')) \<and>
   (start opn turn self w = (out1, exc1, self1, w1) \<and>
      FeatureCreated f \<in> set out1 \<longrightarrow>
        exc1 = None \<and> feature_inserted self w self1 w1 \<and>
        (unlink_raises w (join (project_dir self) ''.new_feature.json'') = None \<longrightarrow>
           created_turn self w f out1 self1 w1))"
  using send_message_created start_created by blast

theorem feature_created_ends_turn_demo:
  "FeatureCreated payload_xy
     \<in> set (fst (send_message ''go'' None demo_turn demo_session (demo_world (JsonDoc payload_xy)))) \<and>
   unlink_raises (demo_world (JsonDoc payload_xy)) (join (project_dir demo_session) ''.new_feature.json'')
     = None \<and>
   created_turn demo_session (demo_world (JsonDoc payload_xy)) payload_xy
     (fst (send_message ''go'' None demo_turn demo_session (demo_world (JsonDoc payload_xy))))
     (fst (snd (send_message ''go'' None demo_turn demo_session (demo_world (JsonDoc payload_xy)))))
     (snd (snd (send_message ''go'' None demo_turn demo_session (demo_world (JsonDoc payload_xy))))) \<and>
   FeatureCreated payload_xy
     \<in> set (fst (start Opened retry_turn demo_session (demo_world (JsonDoc payload_xy)))) \<and>
   created_turn demo_session (demo_world (JsonDoc payload_xy)) payload_xy
     (fst (start Opened retry_turn demo_session (demo_world (JsonDoc payload_xy))))
     (fst (snd (snd (start Opened retry_turn demo_session (demo_world (JsonDoc payload_xy))))))
     (snd (snd (snd (start Opened retry_turn demo_session (demo_world (JsonDoc payload_xy)))))) \<and>
   FeatureCreated payload_xy
     \<in> set (fst (send_message ''go'' None demo_turn demo_session readonly_world)) \<and>
   feature_inserted demo_session readonly_world
     (fst (snd (send_message ''go'' None demo_turn demo_session readonly_world)))
     (snd (snd (send_message ''go'' None demo_turn demo_session readonly_world)))"
proof -
  let ?w = "demo_world (JsonDoc payload_xy)"
  let ?r = "send_message ''go'' None demo_turn demo_session ?w"
  let ?t = "start Opened retry_turn demo_session ?w"
  let ?q = "send_message ''go'' None demo_turn demo_session readonly_world"
  have r: "?r = (fst ?r, fst (snd ?r), snd (snd ?r))" by simp
  have t: "?t = (fst ?t, fst (snd ?t), fst (snd (snd ?t)), snd (snd (snd ?t)))" by simp
  have q: "?q = (fst ?q, fst (snd ?q), snd (snd ?q))" by simp
  have u: "unlink_raises ?w (join (project_dir demo_session) ''.new_feature.json'') = None"
    by (simp add: demo_world_def)
  have m: "FeatureCreated payload_xy \<in> set (fst ?r)"
    by (simp add: session_defs run_defs demo_defs)
  have n: "FeatureCreated payload_xy \<in> set (fst ?t)"
    by (simp add: session_defs run_defs demo_defs retry_turn_def retry_events_def)
  have k: "FeatureCreated payload_xy \<in> set (fst ?q)"
    by (simp add: session_defs run_defs demo_defs readonly_world_def)
  from feature_created_ends_turn
    [of "''go''" None demo_turn demo_session ?w "fst ?r" "fst (snd ?r)" "snd (snd ?r)" payload_xy
        Opened "[]" None demo_session ?w]
    feature_created_ends_turn
    [of "''go''" None retry_turn demo_session ?w "[]" demo_session ?w payload_xy
        Opened "fst ?t" "fst (snd ?t)" "fst (snd (snd ?t))" "snd (snd (snd ?t))"]
    feature_created_ends_turn
    [of "''go''" None demo_turn demo_session readonly_world "fst ?q" "fst (snd ?q)" "snd (snd ?q)"
        payload_xy Opened "[]" None demo_session readonly_world]
    r t q u m n k
  show ?thesis by blast
qed

text \<open>
  The claim as stated fails on the demo turn: the \<open>response_done\<close> chunk comes after
  the \<open>feature_created\<close> chunk (and the agent's last message is not processed). And
  when the file system refuses the unlink, an error chunk, the text of the agent's last
  message and the marker follow the \<open>feature_created\<close> chunk, and the trigger file is
  still on disk.
\<close>

theorem chunks_follow_feature_created:
  "fst (send_message ''go'' None demo_turn demo_session (demo_world (JsonDoc payload_xy)))
     = [TextChunk ''Done.'', FeatureCreated payload_xy, ResponseDone] \<and>
   fst (send_message ''go'' None demo_turn demo_session readonly_world)
     = [TextChunk ''Done.'', FeatureCreated payload_xy,
        ErrorChunk (Lit ''Failed to create feature from definition.''),
        TextChunk ''More.'', ResponseDone] \<and>
   fs (snd (snd (send_message ''go'' None demo_turn demo_session readonly_world))) demo_trigger
     = Some (File (JsonDoc payload_xy))"
  by (simp add: session_defs run_defs demo_defs readonly_world_def)

text \<open>
  Claim C9: \<open>complete\<close> is true exactly when \<open>created_feature_id\<close> is set, on a new
  session and after \<open>start\<close>, \<open>send_message\<close> and \<open>close\<close> on a session where it held;
  neither field is reset by them; \<open>start\<close> and \<open>send_message\<close> change a field only in a
  turn that yields a \<open>feature_created\<close> chunk, in which rows were inserted and both
  fields were set (and which, when the file system does not refuse the unlink of the
  trigger file, ended there), and \<open>close\<close> changes neither.
\<close>

theorem completion_fields_invariant:
  assumes "start opn turn1 s w = (out1, exc1, s1, w1)"
    and "send_message user_message attachments turn2 s w = (out2, s2, w2)"
    and "close s w = (s3, w3)"
  shows "completion_consistent (FeatureChatSession pn pd) \<and>
         keeps_completion s s1 \<and> keeps_completion s s2 \<and> keeps_completion s s3 \<and>
         (complete s1 \<noteq> complete s \<or> created_feature_id s1 \<noteq> created_feature_id s
            \<longrightarrow> (\<exists>f. FeatureCreated f \<in> set out1 \<and> feature_inserted s w s1 w1 \<and>
                   (unlink_raises w (join (project_dir s) ''.new_feature.json'') = None
                      \<longrightarrow> created_turn s w f out1 s1 w1))) \<and>
         (complete s2 \<noteq> complete s \<or> created_feature_id s2 \<noteq> created_feature_id s
            \<longrightarrow> (\<exists>f. FeatureCreated f \<in> set out2 \<and> feature_inserted s w s2 w2 \<and>
                   (unlink_raises w (join (project_dir s) ''.new_feature.json'') = None
                      \<longrightarrow> created_turn s w f out2 s2 w2))) \<and>
         complete s3 = complete s \<and> created_feature_id s3 = created_feature_id s"
proof -
  have i: "completion_consistent (FeatureChatSession pn pd)"
    by (simp add: completion_consistent_def FeatureChatSession_def)
  note f1 = start_fields[OF assms(1)]
  note f2 = send_message_fields[OF assms(2)]
  have c: "complete s3 = complete s" "created_feature_id s3 = created_feature_id s"
    using assms(3) by (auto simp add: close_def split: if_splits)
  then have k3: "keeps_completion s s3"
    by (simp add: keeps_completion_def completion_consistent_def)
  have c1: "complete s1 \<noteq> complete s \<or> created_feature_id s1 \<noteq> created_feature_id s
            \<longrightarrow> (\<exists>f. FeatureCreated f \<in> set out1 \<and> feature_inserted s w s1 w1 \<and>
                   (unlink_raises w (join (project_dir s) ''.new_feature.json'') = None
                      \<longrightarrow> created_turn s w f out1 s1 w1))"
  proof
    assume "complete s1 \<noteq> complete s \<or> created_feature_id s1 \<noteq> created_feature_id s"
    from fields_step_changed[OF f1 this] obtain f where m: "FeatureCreated f \<in> set out1"
      by blast
    from start_created[OF assms(1) m] m
    have "FeatureCreated f \<in> set out1 \<and> feature_inserted s w s1 w1 \<and>
                   (unlink_raises w (join (project_dir s) ''.new_feature.json'') = None
                      \<longrightarrow> created_turn s w f out1 s1 w1)" by simp
    then show "\<exists>f. FeatureCreated f \<in> set out1 \<and> feature_inserted s w s1 w1 \<and>
                   (unlink_raises w (join (project_dir s) ''.new_feature.json'') = None
                      \<longrightarrow> created_turn s w f out1 s1 w1)" by (rule exI)
  qed
  have c2: "complete s2 \<noteq> complete s \<or> created_feature_id s2 \<noteq> created_feature_id s
            \<longrightarrow> (\<exists>f. FeatureCreated f \<in> set out2 \<and> feature_inserted s w s2 w2 \<and>
                   (unlink_raises w (join (project_dir s) ''.new_feature.json'') = None
                      \<longrightarrow> created_turn s w f out2 s2 w2))"
  proof
    assume "complete s2 \<noteq> complete s \<or> created_feature_id s2 \<noteq> created_feature_id s"
    from fields_step_changed[OF f2 this] obtain f where m: "FeatureCreated f \<in> set out2"
      by blast
    from send_message_created[OF assms(2) m] m
    have "FeatureCreated f \<in> set out2 \<and> feature_inserted s w s2 w2 \<and>
                   (unlink_raises w (join (project_dir s) ''.new_feature.json'') = None
                      \<longrightarrow> created_turn s w f out2 s2 w2)" by simp
    then show "\<exists>f. FeatureCreated f \<in> set out2 \<and> feature_inserted s w s2 w2 \<and>
                   (unlink_raises w (join (project_dir s) ''.new_feature.json'') = None
                      \<longrightarrow> created_turn s w f out2 s2 w2)" by (rule exI)
  qed
  show ?thesis
    using i fields_step_keeps[OF f1] fields_step_keeps[OF f2] k3 c1 c2 c
    by blast
qed

theorem completion_fields_invariant_demo:
  "completion_consistent demo_session \<and>
   keeps_completion demo_session
     (fst (snd (snd (start Opened retry_turn demo_session (demo_world (JsonDoc payload_xy)))))) \<and>
   keeps_completion demo_session
     (fst (snd (send_message ''go'' None demo_turn demo_session (demo_world (JsonDoc payload_xy))))) \<and>
   keeps_completion demo_session (fst (close demo_session (demo_world (JsonDoc payload_xy)))) \<and>
   complete (fst (snd (send_message ''go'' None demo_turn demo_session
                         (demo_world (JsonDoc payload_xy))))) \<and>
   created_feature_id (fst (snd (send_message ''go'' None demo_turn demo_session
                         (demo_world (JsonDoc payload_xy))))) = Some 2"
proof -
  let ?w = "demo_world (JsonDoc payload_xy)"
  let ?r = "send_message ''go'' None demo_turn demo_session ?w"
  let ?t = "start Opened retry_turn demo_session ?w"
  let ?c = "close demo_session ?w"
  have r: "?r = (fst ?r, fst (snd ?r), snd (snd ?r))" by simp
  have t: "?t = (fst ?t, fst (snd ?t), fst (snd (snd ?t)), snd (snd (snd ?t)))" by simp
  have c: "?c = (fst ?c, snd ?c)" by simp
  have a: "completion_consistent demo_session"
    by (simp add: completion_consistent_def demo_defs)
  have b: "complete (fst (snd ?r))" "created_feature_id (fst (snd ?r)) = Some 2"
    by (simp_all add: session_defs run_defs demo_defs)
  from completion_fields_invariant[OF t r c] a b show ?thesis by blast
qed

section \<open>One session per project\<close>

text \<open>
  Claim C3 says that the map holds at most one session per project identifier at any
  time, and that \<open>create\<close> for an identifier that has a session closes that session
  before the new one becomes visible in the map. On the code the new session is put in
  the map inside the lock block, and the old one is closed after the lock is released.
  What holds, from a well-formed registry: the registry stays well formed (one entry per
  identifier) after the lock block, after \<open>create_session\<close> and after
  \<open>remove_session\<close>, and \<open>cleanup_all_sessions\<close> empties it; after the lock block the
  map already gives the new session for the identifier, while the old session object is
  what it was; when \<open>create_session\<close> returns, the map gives the new, unstarted
  session, the old session is a different object and is not open, and every other
  identifier has the session it had.
\<close>

theorem create_session_replaces:
  assumes "registry_ok w"
    and "create_session_locked pn pd w = (old_session, new, w1)"
    and "create_session pn pd w = (a, w2)"
  shows "a = new \<and> registry_ok w1 \<and> registry_ok w2 \<and>
         map_of (sessions w1) pn = Some new \<and> map_of (sessions w2) pn = Some new \<and>
         heap w1 new = FeatureChatSession pn pd \<and> heap w2 new = FeatureChatSession pn pd \<and>
         old_session = map_of (sessions w) pn \<and>
         (\<forall>old. old_session = Some old \<longrightarrow>
            old \<noteq> new \<and> heap w1 old = heap w old \<and> \<not> is_open (heap w2 old)) \<and>
         (\<forall>k. k \<noteq> pn \<longrightarrow> map_of (sessions w2) k = map_of (sessions w) k) \<and>
         registry_ok (remove_session pn w) \<and> map_of (sessions (remove_session pn w)) pn = None \<and>
         registry_ok (cleanup_all_sessions w) \<and> sessions (cleanup_all_sessions w) = []"
proof -
  note l = registry_ok_locked[OF assms(1,2)]
  have a: "a = new" and w2: "w2 = (case old_session of None \<Rightarrow> w1 | Some old \<Rightarrow> close_at old w1)"
    using assms(2,3) by (simp_all add: create_session_def)
  have s2: "sessions w2 = sessions w1" "next_addr w2 = next_addr w1"
    by (cases old_session; simp add: w2 close_at_fields)+
  have ok2: "registry_ok w2" using l(1) s2 by (simp add: registry_ok_def)
  have h2: "heap w2 new = FeatureChatSession pn pd"
  proof (cases old_session)
    case None
    then show ?thesis using l(3) by (simp add: w2)
  next
    case (Some old)
    with l(7) have "new \<noteq> old" by auto
    then show ?thesis using l(3) Some by (simp add: w2 close_at_fields)
  qed
  have old: "\<forall>old. old_session = Some old \<longrightarrow>
            old \<noteq> new \<and> heap w1 old = heap w old \<and> \<not> is_open (heap w2 old)"
    using l(7) by (auto simp add: w2 close_at_fields)
  let ?r = "w\<lparr>sessions := dict_pop pn (sessions w)\<rparr>"
  have rs: "sessions (remove_session pn w) = dict_pop pn (sessions w)"
    "next_addr (remove_session pn w) = next_addr w"
    by (cases "map_of (sessions w) pn"; simp add: remove_session_def Let_def close_at_fields)+
  have "\<forall>a \<in> set (map snd (sessions w)). a < next_addr w"
    using assms(1) unfolding registry_ok_def by blast
  then have "\<forall>a \<in> set (map snd (dict_pop pn (sessions w))). a < next_addr w"
    using values_dict_pop[of pn "sessions w"] by blast
  moreover have "distinct (map fst (dict_pop pn (sessions w)))"
    using assms(1) unfolding registry_ok_def by (simp add: distinct_dict_pop)
  ultimately have rok: "registry_ok (remove_session pn w)"
    unfolding registry_ok_def rs by blast
  have rn: "map_of (sessions (remove_session pn w)) pn = None"
    by (simp add: rs map_of_dict_pop)
  have cl: "sessions (cleanup_all_sessions w) = []"
    by (simp add: cleanup_all_sessions_def Let_def fold_close_at_fields)
  have cok: "registry_ok (cleanup_all_sessions w)"
    by (simp add: registry_ok_def cl)
  show ?thesis
    using a l(1,2,3,4,8) ok2 s2 h2 old rok rn cok cl by simp
qed

text \<open>
  In the demo world the project has an open session at address 0. After
  \<open>create_session\<close> the map gives the new session at address 1 and the old one is not
  open.
\<close>

theorem create_session_replaces_demo:
  "registry_ok (demo_world (JsonDoc payload_xy)) \<and>
   fst (create_session ''demo'' demo_dir (demo_world (JsonDoc payload_xy))) = 1 \<and>
   map_of (sessions (snd (create_session ''demo'' demo_dir (demo_world (JsonDoc payload_xy)))))
     ''demo'' = Some 1 \<and>
   \<not> is_open (heap (snd (create_session ''demo'' demo_dir (demo_world (JsonDoc payload_xy)))) 0) \<and>
   is_open (heap (demo_world (JsonDoc payload_xy)) 0)"
proof -
  let ?w = "demo_world (JsonDoc payload_xy)"
  let ?l = "create_session_locked ''demo'' demo_dir ?w"
  let ?c = "create_session ''demo'' demo_dir ?w"
  have ok: "registry_ok ?w" by (simp add: registry_ok_def demo_world_def)
  have l: "?l = (fst ?l, fst (snd ?l), snd (snd ?l))" by simp
  have c: "?c = (fst ?c, snd ?c)" by simp
  have o: "fst ?l = Some 0" "fst (snd ?l) = 1"
    by (simp_all add: create_session_locked_def Let_def demo_world_def)
  have i: "is_open (heap ?w 0)"
    by (simp add: demo_world_def demo_session_def FeatureChatSession_def is_open_def)
  from create_session_replaces[OF ok l c] o i ok show ?thesis by simp
qed

text \<open>
  The claim as stated fails in the demo world: when the lock block is left, the map
  already gives the new session at address 1, and the old session at address 0 is
  still open.
\<close>

theorem new_session_visible_before_close:
  "fst (create_session_locked ''demo'' demo_dir (demo_world (JsonDoc payload_xy))) = Some 0 \<and>
   fst (snd (create_session_locked ''demo'' demo_dir (demo_world (JsonDoc payload_xy)))) = 1 \<and>
   map_of (sessions (snd (snd (create_session_locked ''demo'' demo_dir
                                  (demo_world (JsonDoc payload_xy)))))) ''demo'' = Some 1 \<and>
   is_open (heap (snd (snd (create_session_locked ''demo'' demo_dir
                               (demo_world (JsonDoc payload_xy))))) 0)"
  by (simp add: create_session_locked_def Let_def dict_pop_def demo_world_def demo_session_def
      FeatureChatSession_def is_open_def)

end
